theory Spec2Isabelle
  imports Complex_Main "HOL-Library.Sublist" "HOL-Library.AList"
begin

text \<open>
  The repository turns nodes of a Figma document into the source text of React, Vue or
  Svelte components. It holds two generators. \<open>converter.ts\<close>, fed by
  \<open>figma-client.ts\<close>, has the entry point \<open>convertFigmaToCode\<close>: it derives a
  display name and a file slug from each node's name, reads template inputs off the
  text children, renders one component per node and an index that re-exports them.
  \<open>index.ts\<close> has the class \<open>DesignToCode\<close>: it extracts a property record
  from a node (dimensions, background colour, typography) and turns it into utility
  classes. Both are modelled below, function by function, on values of the types the
  sources declare; the converter is modelled once more on values of any shape, where a
  call can throw. The properties of the specification are then stated and proved about
  these models.
\<close>

section \<open>JavaScript strings\<close>

text \<open>
  A JavaScript string is a sequence of UTF-16 code units; \<open>length\<close>, \<open>slice\<close>,
  \<open>charAt\<close> and the regular expressions of the sources (none has the \<open>u\<close> flag) all
  count code units. A code unit is modelled as a natural number, a string as a list of
  them, and \<open>str\<close> turns a literal of the sources into such a list.
\<close>

type_synonym code_unit = nat
type_synonym jsstring = "code_unit list"

definition str :: "string \<Rightarrow> jsstring" where
  "str s = map of_char s"

text \<open>The apostrophe and the line feed, which a literal cannot hold at its end.\<close>

definition apostrophe :: jsstring where
  "apostrophe = [39]"

definition newline :: jsstring where
  "newline = [10]"

subsection \<open>Character classes of the regular expressions\<close>

definition is_digit :: "code_unit \<Rightarrow> bool" where
  "is_digit c = (48 \<le> c \<and> c \<le> 57)"

definition is_lower :: "code_unit \<Rightarrow> bool" where
  "is_lower c = (97 \<le> c \<and> c \<le> 122)"

definition is_upper :: "code_unit \<Rightarrow> bool" where
  "is_upper c = (65 \<le> c \<and> c \<le> 90)"

text \<open>\<^verbatim>\<open>[a-zA-Z0-9]\<close>\<close>

definition is_alnum :: "code_unit \<Rightarrow> bool" where
  "is_alnum c = (is_lower c \<or> is_upper c \<or> is_digit c)"

text \<open>\<^verbatim>\<open>\w\<close>: letters, digits and the underscore.\<close>

definition is_word :: "code_unit \<Rightarrow> bool" where
  "is_word c = (is_alnum c \<or> c = 95)"

text \<open>\<^verbatim>\<open>[a-z0-9\-]\<close>\<close>

definition is_slug_char :: "code_unit \<Rightarrow> bool" where
  "is_slug_char c = (is_lower c \<or> is_digit c \<or> c = 45)"

text \<open>
  \<^verbatim>\<open>\s\<close>: tab, line feed, vertical tab, form feed, carriage return, space, no-break
  space, U+1680, U+2000 to U+200A, the line and paragraph separators, U+202F, U+205F,
  U+3000 and the byte order mark.
\<close>

definition is_space :: "code_unit \<Rightarrow> bool" where
  "is_space c = ((9 \<le> c \<and> c \<le> 13) \<or> c = 32 \<or> c = 160 \<or> c = 5760
     \<or> (8192 \<le> c \<and> c \<le> 8202) \<or> c = 8232 \<or> c = 8233 \<or> c = 8239 \<or> c = 8287
     \<or> c = 12288 \<or> c = 65279)"

text \<open>\<^verbatim>\<open>[\s\-_]\<close>\<close>

definition is_separator :: "code_unit \<Rightarrow> bool" where
  "is_separator c = (is_space c \<or> c = 45 \<or> c = 95)"

subsection \<open>Array and string methods\<close>

text \<open>\<open>Array.prototype.join\<close>: the empty array joins to the empty string.\<close>

fun join :: "jsstring \<Rightarrow> jsstring list \<Rightarrow> jsstring" where
  "join sep [] = []"
| "join sep [w] = w"
| "join sep (w # v # ws) = w @ sep @ join sep (v # ws)"

text \<open>
  \<open>s.split(/[class]+/)\<close>: the pieces between the maximal runs of the class's code units.
  The flag says that the code unit before was of the class, so the run goes on. A run at
  the start or the end leaves an empty piece there, and the empty string splits into one
  empty piece.
\<close>

fun split_from :: "(code_unit \<Rightarrow> bool) \<Rightarrow> bool \<Rightarrow> jsstring \<Rightarrow> jsstring list" where
  "split_from p in_run [] = [[]]"
| "split_from p in_run (c # cs) =
     (if p c then (if in_run then split_from p True cs else [] # split_from p True cs)
      else (case split_from p False cs of
              [] \<Rightarrow> [[c]]
            | w # ws \<Rightarrow> (c # w) # ws))"

definition split_runs :: "(code_unit \<Rightarrow> bool) \<Rightarrow> jsstring \<Rightarrow> jsstring list" where
  "split_runs p s = split_from p False s"

text \<open>\<open>s.replace(/[class]+/g, rep)\<close>: every maximal run becomes one \<open>rep\<close>.\<close>

fun replace_from :: "(code_unit \<Rightarrow> bool) \<Rightarrow> jsstring \<Rightarrow> bool \<Rightarrow> jsstring \<Rightarrow> jsstring" where
  "replace_from p rep in_run [] = []"
| "replace_from p rep in_run (c # cs) =
     (if p c then (if in_run then replace_from p rep True cs else rep @ replace_from p rep True cs)
      else c # replace_from p rep False cs)"

definition replace_runs :: "(code_unit \<Rightarrow> bool) \<Rightarrow> jsstring \<Rightarrow> jsstring \<Rightarrow> jsstring" where
  "replace_runs p rep s = replace_from p rep False s"

subsection \<open>Case conversion\<close>

text \<open>
  Case conversion of the letters A to Z, every other code unit left alone: what
  \<open>toUpperCase\<close> and \<open>toLowerCase\<close> compute on a string of ASCII code units.
\<close>

definition ascii_upper :: "jsstring \<Rightarrow> jsstring" where
  "ascii_upper s = map (\<lambda>c. if is_lower c then c - 32 else c) s"

definition ascii_lower :: "jsstring \<Rightarrow> jsstring" where
  "ascii_lower s = map (\<lambda>c. if is_upper c then c + 32 else c) s"

definition is_ascii :: "jsstring \<Rightarrow> bool" where
  "is_ascii s = list_all (\<lambda>c. c < 128) s"

section \<open>JavaScript numbers\<close>

text \<open>
  A number is an IEEE 754 double. The model holds its exact value, a rational.
  \<open>NaN\<close> and the infinities are outside the type: an operation whose result
  overflows returns \<open>None\<close>. Negative zero is the rational zero: wherever the
  sources print a number or test one, the two zeros behave alike.

  \<open>Math.round\<close> rounds to the nearest integer, a tie towards plus infinity; its
  result is exact.
\<close>

type_synonym number = rat

definition Math_round :: "number \<Rightarrow> int" where
  "Math_round q = \<lfloor>q + 1 / 2\<rfloor>"

subsection \<open>Rounding to a double\<close>

text \<open>
  The exponent \<open>e\<close> of a rational other than zero, \<open>2\<^sup>e \<le> |q| < 2\<^sup>e\<^sup>+\<^sup>1\<close>:
  the number of halvings that bring a magnitude of at least one below two, or minus the
  number of doublings that bring a smaller one up to one.
\<close>

function halvings :: "rat \<Rightarrow> nat" where
  "halvings q = (if q < 2 then 0 else Suc (halvings (q / 2)))"
  by pat_completeness auto
termination
proof (relation "measure (\<lambda>q. nat \<lfloor>q\<rfloor>)")
  show "wf (measure (\<lambda>q. nat \<lfloor>q\<rfloor>))" by simp
next
  fix q :: rat
  assume "\<not> q < 2"
  then have "2 \<le> \<lfloor>q\<rfloor>" and "q / 2 < of_int \<lfloor>q\<rfloor>"
    by (simp_all add: le_floor_iff) linarith
  then have "\<lfloor>q / 2\<rfloor> < \<lfloor>q\<rfloor>" by (simp add: floor_less_iff)
  with \<open>2 \<le> \<lfloor>q\<rfloor>\<close> show "(q / 2, q) \<in> measure (\<lambda>q. nat \<lfloor>q\<rfloor>)" by simp
qed

function doublings :: "rat \<Rightarrow> nat" where
  "doublings q = (if q \<le> 0 \<or> 1 \<le> q then 0 else Suc (doublings (q * 2)))"
  by pat_completeness auto
termination
proof (relation "measure (\<lambda>q. nat \<lfloor>1 / q\<rfloor>)")
  show "wf (measure (\<lambda>q. nat \<lfloor>1 / q\<rfloor>))" by simp
next
  fix q :: rat
  assume "\<not> (q \<le> 0 \<or> 1 \<le> q)"
  then have "1 < 1 / q" by simp
  then have one: "1 \<le> \<lfloor>1 / q\<rfloor>" by (simp add: le_floor_iff)
  define x where "x = 1 / q"
  have "(1 :: rat) \<le> of_int \<lfloor>x\<rfloor>" using one unfolding x_def by linarith
  moreover have "x < of_int \<lfloor>x\<rfloor> + 1" by linarith
  ultimately have "x / 2 < of_int \<lfloor>x\<rfloor>" by linarith
  then have "\<lfloor>1 / (q * 2)\<rfloor> < \<lfloor>1 / q\<rfloor>" unfolding x_def by (simp add: floor_less_iff)
  with one show "(q * 2, q) \<in> measure (\<lambda>q. nat \<lfloor>1 / q\<rfloor>)" by simp
qed

declare halvings.simps [simp del] doublings.simps [simp del]

definition exponent :: "rat \<Rightarrow> int" where
  "exponent q = (if 1 \<le> \<bar>q\<bar> then int (halvings \<bar>q\<bar>) else - int (doublings \<bar>q\<bar>))"

text \<open>Rounding to the nearest integer, a tie to the even one.\<close>

definition round_half_even :: "rat \<Rightarrow> int" where
  "round_half_even x =
     (let f = \<lfloor>x\<rfloor>
      in if x - of_int f < 1 / 2 then f
         else if 1 / 2 < x - of_int f then f + 1
         else if even f then f else f + 1)"

text \<open>
  The distance between the doubles around \<open>q\<close>: a double has 53 significant bits,
  and below \<open>2\<^sup>-\<^sup>1\<^sup>0\<^sup>2\<^sup>2\<close>, among the subnormal numbers, the distance stays at
  \<open>2\<^sup>-\<^sup>1\<^sup>0\<^sup>7\<^sup>4\<close>.
\<close>

definition ulp :: "rat \<Rightarrow> rat" where
  "ulp q = 2 powi (max (exponent q) (- 1022) - 52)"

text \<open>
  The double nearest to a rational, a tie to the even significand, as every arithmetic
  operation of JavaScript rounds its exact result; \<open>None\<close> when the rounded magnitude
  reaches \<open>2\<^sup>1\<^sup>0\<^sup>2\<^sup>4\<close>, where the operation gives an infinity.
\<close>

definition round_double :: "rat \<Rightarrow> number option" where
  "round_double q =
     (let d = of_int (round_half_even (q / ulp q)) * ulp q
      in if \<bar>d\<bar> < 2 ^ 1024 then Some d else None)"

subsection \<open>Numerals\<close>

text \<open>
  The decimal and the hexadecimal numeral of an integer, with a minus sign when it is
  negative, the hexadecimal digits in lower case.
\<close>

fun digits :: "nat \<Rightarrow> jsstring" where
  "digits n = (if n < 10 then [48 + n] else digits (n div 10) @ [48 + n mod 10])"

declare digits.simps [simp del]

definition decimal :: "int \<Rightarrow> jsstring" where
  "decimal n = (if n < 0 then str ''-'' else []) @ digits (nat \<bar>n\<bar>)"

definition hex_digit :: "nat \<Rightarrow> code_unit" where
  "hex_digit d = (if d < 10 then 48 + d else 87 + d)"

fun hex_digits :: "nat \<Rightarrow> jsstring" where
  "hex_digits n = (if n < 16 then [hex_digit n] else hex_digits (n div 16) @ [hex_digit (n mod 16)])"

declare hex_digits.simps [simp del]

definition hexadecimal :: "int \<Rightarrow> jsstring" where
  "hexadecimal n = (if n < 0 then str ''-'' else []) @ hex_digits (nat \<bar>n\<bar>)"

section \<open>The built-ins of the runtime\<close>

text \<open>
  The sources call built-ins of the JavaScript runtime that are not code of this
  repository and whose full definition is long: the case conversions, which follow the
  Unicode case tables and may change the length of a string, and the conversions
  between numbers and strings. The model takes them as a parameter, the record
  \<open>js_runtime\<close>, passed to every function that uses one:

    \<^item> \<open>toUpperCase\<close>, \<open>toLowerCase\<close>: \<open>String.prototype.toUpperCase\<close> and
      \<open>toLowerCase\<close>;
    \<^item> \<open>numberToString\<close>: the string of a number in a template literal, the shortest
      decimal that reads back as the same double, in exponent notation from
      \<open>10\<^sup>2\<^sup>1\<close> on and below \<open>10\<^sup>-\<^sup>6\<close>;
    \<^item> \<open>numberToString16\<close>: \<open>toString(16)\<close> of an integral number, the result of
      \<open>Math.round\<close>;
    \<^item> \<open>roundString\<close>: \<open>String(Math.round(Number(s)))\<close> for a string \<open>s\<close>,
      through the grammar of numeric strings.

  What the theorems need of them is stated as a hypothesis on the runtime. Every
  JavaScript runtime converts the case of an ASCII string letter by letter
  (\<open>agrees_on_ascii\<close>), prints an integer from 0 to 255 in base 16 as its
  hexadecimal numeral (\<open>prints_hex_bytes\<close>), and starts the decimal string of a
  number with a minus sign or a digit (\<open>prints_sign_or_digit\<close>).
\<close>

record js_runtime =
  toUpperCase :: "jsstring \<Rightarrow> jsstring"
  toLowerCase :: "jsstring \<Rightarrow> jsstring"
  numberToString :: "number \<Rightarrow> jsstring"
  numberToString16 :: "int \<Rightarrow> jsstring"
  roundString :: "jsstring \<Rightarrow> jsstring"

definition agrees_on_ascii :: "js_runtime \<Rightarrow> bool" where
  "agrees_on_ascii rt =
     (\<forall>s. is_ascii s \<longrightarrow> toUpperCase rt s = ascii_upper s \<and> toLowerCase rt s = ascii_lower s)"

definition prints_hex_bytes :: "js_runtime \<Rightarrow> bool" where
  "prints_hex_bytes rt = (\<forall>n. 0 \<le> n \<and> n \<le> 255 \<longrightarrow> numberToString16 rt n = hexadecimal n)"

definition prints_sign_or_digit :: "js_runtime \<Rightarrow> bool" where
  "prints_sign_or_digit rt =
     (\<forall>q. numberToString rt q \<noteq> []
          \<and> (hd (numberToString rt q) = 45 \<or> is_digit (hd (numberToString rt q))))"

text \<open>
  The runtime of the sample computations below. It is what a JavaScript runtime
  computes on the values those computations meet: strings of ASCII code units, and
  integers of a magnitude below \<open>2\<^sup>5\<^sup>3\<close>, which print as their numerals. It
  stands for no runtime beyond them (a fraction prints as its integer part here, and
  no string reads as a number).
\<close>

definition ascii_runtime :: js_runtime where
  "ascii_runtime =
     \<lparr>toUpperCase = ascii_upper, toLowerCase = ascii_lower,
      numberToString = (\<lambda>q. decimal \<lfloor>q\<rfloor>),
      numberToString16 = hexadecimal,
      roundString = (\<lambda>s. str ''NaN'')\<rparr>"

section \<open>converter.ts: component identity\<close>

text \<open>
  \<^verbatim>\<open>name.toLowerCase().replace(/\s+/g, '-').replace(/[^a-z0-9\-]/g, '').slice(0, 50)\<close>
\<close>

definition sanitizeFileName :: "js_runtime \<Rightarrow> jsstring \<Rightarrow> jsstring" where
  "sanitizeFileName rt nm =
     take 50 (filter is_slug_char (replace_runs is_space (str ''-'') (toLowerCase rt nm)))"

text \<open>
  \<^verbatim>\<open>str.split(/[\s\-_]+/)
     .map(word => word.charAt(0).toUpperCase() + word.slice(1).toLowerCase())
     .join('').replace(/[^a-zA-Z0-9]/g, '')\<close>
\<close>

definition capitalize :: "js_runtime \<Rightarrow> jsstring \<Rightarrow> jsstring" where
  "capitalize rt word = toUpperCase rt (take 1 word) @ toLowerCase rt (drop 1 word)"

definition toPascalCase :: "js_runtime \<Rightarrow> jsstring \<Rightarrow> jsstring" where
  "toPascalCase rt s =
     filter is_alnum (join [] (map (capitalize rt) (split_runs is_separator s)))"

section \<open>figma-client.ts: the design document\<close>

record BoundingBox =
  x_box :: number
  y_box :: number
  width :: number
  height :: number

record Color =
  r_ch :: number
  g_ch :: number
  b_ch :: number
  a_ch :: number

record Paint =
  type_paint :: jsstring
  color :: "Color option"

text \<open>
  The interface \<open>FigmaNode\<close>. A field declared with \<open>?\<close> may be absent
  (\<open>None\<close>); \<open>id\<close>, \<open>name\<close> and \<open>type\<close> are always there.
\<close>

datatype FigmaNode = FigmaNode
  (id_node: jsstring)
  (name: jsstring)
  (type: jsstring)
  (visible: "bool option")
  (absoluteBoundingBox: "BoundingBox option")
  (fills: "Paint list option")
  (strokes: "Paint list option")
  (strokeWeight: "number option")
  (cornerRadius: "number option")
  (fontSize: "number option")
  (fontFamily: "jsstring option")
  (fontWeight: "number option")
  (textContent: "jsstring option")
  (children: "FigmaNode list option")

record FigmaFile =
  id_file :: jsstring
  name_file :: jsstring
  nodes :: "FigmaNode list"
  componentCount :: nat
  frameCount :: nat
  raw :: "FigmaNode option"

datatype framework = React | Vue | Svelte

definition framework_name :: "framework \<Rightarrow> jsstring" where
  "framework_name fw = (case fw of React \<Rightarrow> str ''react'' | Vue \<Rightarrow> str ''vue'' | Svelte \<Rightarrow> str ''svelte'')"

section \<open>converter.ts: template inputs\<close>

text \<open>
  One attempt of \<^verbatim>\<open>/\$\{(\w+)\}/\<close> at the start of \<open>s\<close>: the two code units
  \<^verbatim>\<open>${\<close>, the longest run of word characters, which must not be empty, and a closing
  brace. It yields the matched text and what follows it. (A shorter run cannot match
  where the longest does not: the code unit after it is a word character, not a brace.)
\<close>

definition match_here :: "jsstring \<Rightarrow> (jsstring \<times> jsstring) option" where
  "match_here s =
     (if prefix (str ''${'') s
      then (let w = takeWhile is_word (drop 2 s); r = dropWhile is_word (drop 2 s)
            in if w \<noteq> [] \<and> prefix (str ''}'') r
               then Some (str ''${'' @ w @ str ''}'', drop 1 r) else None)
      else None)"

text \<open>
  All matches, as the \<open>g\<close> flag finds them: from left to right, the search going on
  after a match, and one code unit further where there is none.
\<close>

function match_all :: "jsstring \<Rightarrow> jsstring list" where
  "match_all [] = []"
| "match_all (c # cs) =
     (case match_here (c # cs) of
        Some (m, rest) \<Rightarrow> m # match_all rest
      | None \<Rightarrow> match_all cs)"
  by pat_completeness auto
termination
proof (relation "measure length")
  show "wf (measure length)" by simp
next
  fix c cs x2 m rest
  assume "match_here (c # cs) = Some x2" and "(m, rest) = x2"
  then have "rest = drop 1 (dropWhile is_word (drop 2 (c # cs)))"
    by (auto simp: match_here_def Let_def split: if_splits)
  moreover have "length (dropWhile is_word (drop 2 (c # cs))) \<le> length (drop 2 (c # cs))"
    by (rule length_dropWhile_le)
  ultimately show "(rest, c # cs) \<in> measure length" by simp
next
  fix c cs
  show "(cs, c # cs) \<in> measure length" by simp
qed

text \<open>\<open>String.prototype.match\<close> with a global expression: \<open>null\<close> when nothing matches.\<close>

definition match_placeholders :: "jsstring \<Rightarrow> jsstring list option" where
  "match_placeholders s = (case match_all s of [] \<Rightarrow> None | m # ms \<Rightarrow> Some (m # ms))"

text \<open>\<open>m.slice(2, -1)\<close>\<close>

definition slice_2_minus_1 :: "jsstring \<Rightarrow> jsstring" where
  "slice_2_minus_1 m = take (length m - 1 - 2) (drop 2 m)"

text \<open>\<open>Set.prototype.add\<close>: a set keeps its elements in the order of their first insertion.\<close>

definition set_add :: "jsstring list \<Rightarrow> jsstring \<Rightarrow> jsstring list" where
  "set_add props p = (if p \<in> set props then props else props @ [p])"

text \<open>The body of the \<open>forEach\<close> over the children: the set after one child.\<close>

definition add_child_props :: "jsstring list \<Rightarrow> FigmaNode \<Rightarrow> jsstring list" where
  "add_child_props props child =
     (case textContent child of
        None \<Rightarrow> props
      | Some t \<Rightarrow>
          if type child = str ''TEXT'' \<and> sublist (str ''${'') t
          then (case match_placeholders t of
                  None \<Rightarrow> props
                | Some matches \<Rightarrow> foldl (\<lambda>ps m. set_add ps (slice_2_minus_1 m)) props matches)
          else props)"

definition extractPropsFromNode :: "FigmaNode \<Rightarrow> jsstring list" where
  "extractPropsFromNode node =
     (case children node of
        None \<Rightarrow> []
      | Some cs \<Rightarrow> foldl add_child_props [] cs)"

section \<open>converter.ts: the children of a node\<close>

text \<open>\<open>c.visible !== false\<close>: an absent \<open>visible\<close> counts as visible.\<close>

definition shown :: "FigmaNode \<Rightarrow> bool" where
  "shown c = (visible c \<noteq> Some False)"

text \<open>\<open>child.textContent || child.name\<close>: the empty string is falsy.\<close>

definition text_or_name :: "FigmaNode \<Rightarrow> jsstring" where
  "text_or_name child =
     (case textContent child of
        None \<Rightarrow> name child
      | Some t \<Rightarrow> if t \<noteq> [] then t else name child)"

text \<open>
  What the three functions return for a node without children:
  \<^verbatim>\<open>node.textContent ? `<p>${node.textContent}</p>` : ''\<close>
\<close>

definition own_text :: "FigmaNode \<Rightarrow> jsstring" where
  "own_text node =
     (case textContent node of
        None \<Rightarrow> []
      | Some t \<Rightarrow> if t \<noteq> [] then str ''<p>'' @ t @ str ''</p>'' else [])"

definition react_child :: "FigmaNode \<Rightarrow> jsstring" where
  "react_child child =
     (if type child = str ''TEXT''
      then str ''      <p>'' @ text_or_name child @ str ''</p>''
      else str ''      <div>{/* '' @ name child @ str '' */}</div>'')"

definition generateReactChildren :: "FigmaNode \<Rightarrow> jsstring" where
  "generateReactChildren node =
     (case children node of
        None \<Rightarrow> own_text node
      | Some [] \<Rightarrow> own_text node
      | Some (c # cs) \<Rightarrow> join newline (map react_child (filter shown (c # cs))))"

definition vue_child :: "FigmaNode \<Rightarrow> jsstring" where
  "vue_child child =
     (if type child = str ''TEXT''
      then str ''    <p>'' @ text_or_name child @ str ''</p>''
      else str ''    <div><!-- '' @ name child @ str '' --></div>'')"

definition generateVueChildren :: "FigmaNode \<Rightarrow> jsstring" where
  "generateVueChildren node =
     (case children node of
        None \<Rightarrow> own_text node
      | Some [] \<Rightarrow> own_text node
      | Some (c # cs) \<Rightarrow> join newline (map vue_child (filter shown (c # cs))))"

definition svelte_child :: "FigmaNode \<Rightarrow> jsstring" where
  "svelte_child child =
     (if type child = str ''TEXT''
      then str ''  <p>'' @ text_or_name child @ str ''</p>''
      else str ''  <div><!-- '' @ name child @ str '' --></div>'')"

definition generateSvelteChildren :: "FigmaNode \<Rightarrow> jsstring" where
  "generateSvelteChildren node =
     (case children node of
        None \<Rightarrow> own_text node
      | Some [] \<Rightarrow> own_text node
      | Some (c # cs) \<Rightarrow> join newline (map svelte_child (filter shown (c # cs))))"

section \<open>converter.ts: the three renderers\<close>

text \<open>
  The inline style every renderer computes:
  \<^verbatim>\<open>node.absoluteBoundingBox ? `width: ${Math.round(..width)}px; height: ${Math.round(..height)}px;` : ''\<close>
\<close>

definition dimensions_style :: "js_runtime \<Rightarrow> FigmaNode \<Rightarrow> jsstring" where
  "dimensions_style rt node =
     (case absoluteBoundingBox node of
        None \<Rightarrow> []
      | Some box \<Rightarrow>
          str ''width: '' @ numberToString rt (of_int (Math_round (width box))) @ str ''px; height: ''
          @ numberToString rt (of_int (Math_round (height box))) @ str ''px;'')"

definition generateReactComponent :: "js_runtime \<Rightarrow> jsstring \<Rightarrow> FigmaNode \<Rightarrow> jsstring list \<Rightarrow> jsstring" where
  "generateReactComponent rt nm node props =
     (let propString = (if length props > 0 then str ''{ '' @ join (str '', '') props @ str '' }'' else []);
          dimensions = dimensions_style rt node
      in str ''import React from 'react';

interface '' @ nm @ str ''Props {
  '' @ join (str ''
  '') (map (\<lambda>p. p @ str ''?: string | number;'') props) @ str ''
}

export const '' @ nm @ str '': React.FC<'' @ nm @ str ''Props> = ('' @ propString @ str '') => {
  return (
    <div style={{ '' @ dimensions @ str '' }}>
      {/* '' @ name node @ str '' Component */}
      '' @ generateReactChildren node @ str ''
    </div>
  );
};

export default '' @ nm @ str '';
'')"

definition generateVueComponent :: "js_runtime \<Rightarrow> jsstring \<Rightarrow> FigmaNode \<Rightarrow> jsstring list \<Rightarrow> jsstring" where
  "generateVueComponent rt nm node props =
     (let propsSection =
            (if length props > 0
             then str ''
  props: {
    '' @ join (str ''
    '') (map (\<lambda>p. p @ str '': String,'') props) @ str ''
  },''
             else []);
          dimensions = dimensions_style rt node
      in str ''<template>
  <div style=\"'' @ dimensions @ str ''\">
    <!-- '' @ name node @ str '' Component -->
    '' @ generateVueChildren node @ str ''
  </div>
</template>

<script>
export default {
  name: '' @ apostrophe @ nm @ apostrophe @ str '','' @ propsSection @ str ''
};
</script>

<style scoped>
div {
  box-sizing: border-box;
}
</style>
'')"

definition generateSvelteComponent :: "js_runtime \<Rightarrow> jsstring \<Rightarrow> FigmaNode \<Rightarrow> jsstring list \<Rightarrow> jsstring" where
  "generateSvelteComponent rt nm node props =
     (let exportProps = join newline (map (\<lambda>p. str ''export let '' @ p @ str '';'') props);
          dimensions = dimensions_style rt node
      in str ''<script>
  '' @ exportProps @ str ''
</script>

<div style=\"'' @ dimensions @ str ''\">
  <!-- '' @ name node @ str '' Component -->
  '' @ generateSvelteChildren node @ str ''
</div>

<style>
  div {
    box-sizing: border-box;
  }
</style>
'')"

definition generateComponentCode :: "js_runtime \<Rightarrow> FigmaNode \<Rightarrow> framework \<Rightarrow> jsstring" where
  "generateComponentCode rt node fw =
     (let nm = toPascalCase rt (name node);
          props = extractPropsFromNode node
      in case fw of
           React \<Rightarrow> generateReactComponent rt nm node props
         | Vue \<Rightarrow> generateVueComponent rt nm node props
         | Svelte \<Rightarrow> generateSvelteComponent rt nm node props)"

section \<open>converter.ts: the index file and the entry point\<close>

text \<open>\<open>n.visible !== false && n.name\<close>: the filter of the entry point and of the index.\<close>

definition valid_node :: "FigmaNode \<Rightarrow> bool" where
  "valid_node n = (visible n \<noteq> Some False \<and> name n \<noteq> [])"

definition export_statement :: "js_runtime \<Rightarrow> FigmaNode \<Rightarrow> jsstring" where
  "export_statement rt node =
     (let nm = toPascalCase rt (name node);
          filename = sanitizeFileName rt (name node)
      in str ''export { default as '' @ nm @ str '' } from '' @ apostrophe @ str ''./''
         @ filename @ apostrophe @ str '';'')"

definition generateIndexFile :: "js_runtime \<Rightarrow> FigmaNode list \<Rightarrow> framework \<Rightarrow> jsstring" where
  "generateIndexFile rt ns fw =
     (let imports = join newline (map (export_statement rt) (filter valid_node ns))
      in if fw = Vue
         then str ''// Vue Components'' @ newline @ imports @ newline
         else str ''// '' @ framework_name fw @ str '' Components'' @ newline @ imports @ newline)"

text \<open>
  \<open>components\<close> is an object used as a dictionary: its keys keep the order of their
  first assignment, and an assignment to a key it has replaces the value in place.
  That is \<open>AList.update\<close> on an association list. (Every key ends in \<open>.tsx\<close>, so none
  is an array index, which an object would order first.)
\<close>

record ConversionResult =
  components :: "(jsstring \<times> jsstring) list"
  index :: jsstring

definition add_component ::
  "js_runtime \<Rightarrow> framework \<Rightarrow> (jsstring \<times> jsstring) list \<Rightarrow> FigmaNode \<Rightarrow> (jsstring \<times> jsstring) list" where
  "add_component rt fw comps node =
     (let filename = sanitizeFileName rt (name node);
          code = generateComponentCode rt node fw
      in AList.update (filename @ str ''.tsx'') code comps)"

definition convertFigmaToCode :: "js_runtime \<Rightarrow> FigmaFile \<Rightarrow> framework \<Rightarrow> ConversionResult" where
  "convertFigmaToCode rt figmaFile fw =
     (let validNodes = filter valid_node (nodes figmaFile);
          comps = foldl (add_component rt fw) [] validNodes;
          indexFile = generateIndexFile rt validNodes fw
      in \<lparr>components = comps, index = indexFile\<rparr>)"

section \<open>converter.ts at run time: values of any shape\<close>

text \<open>
  TypeScript's types are erased when the program runs. \<open>convertFigmaToCode\<close> receives
  what its caller read from a JSON file or from the Figma API, and a field declared a
  string may then hold a number or nothing. The functions of the converter are
  therefore modelled a second time, as the runtime executes them on values of any shape,
  with the exception that an operation throws as a result. The functions of the sections
  above are these on the values of the declared types (\<open>convertFigmaToCode_encoded\<close>).

  A value of a JSON document: \<open>null\<close>, a boolean, a number, a string, an array, or an
  object, a list of members of which the first with a given key counts.
  \<open>JUndefined\<close> is what reading a missing member gives; no document holds it.
\<close>

datatype jsvalue =
    JUndefined
  | JNull
  | JBool bool
  | JNumber number
  | JString jsstring
  | JArray "jsvalue list"
  | JObject "(jsstring \<times> jsvalue) list"

text \<open>
  The sources have no \<open>throw\<close> statement. What the runtime itself throws in them is a
  \<open>TypeError\<close>: on reading a property of \<open>undefined\<close> or \<open>null\<close>, on calling
  what is not a function, on converting to a string an object that cannot be. Within the
  \<open>async\<close> function \<open>convertFigmaToCode\<close> the exception rejects the promise.
\<close>

datatype js_error = TypeError

type_synonym 'a completion = "js_error + 'a"

text \<open>Sequencing: the first exception ends the computation.\<close>

definition and_then :: "'a completion \<Rightarrow> ('a \<Rightarrow> 'b completion) \<Rightarrow> 'b completion" where
  "and_then m f = (case m of Inl e \<Rightarrow> Inl e | Inr v \<Rightarrow> f v)"

text \<open>
  \<open>Array.prototype.map\<close>, \<open>filter\<close> and \<open>forEach\<close> (also the \<open>for \<dots> of\<close>
  loop) with a callback that may throw.
\<close>

fun map_array :: "('a \<Rightarrow> 'b completion) \<Rightarrow> 'a list \<Rightarrow> 'b list completion" where
  "map_array f [] = Inr []"
| "map_array f (x # xs) = and_then (f x) (\<lambda>y. and_then (map_array f xs) (\<lambda>ys. Inr (y # ys)))"

fun filter_array :: "('a \<Rightarrow> bool completion) \<Rightarrow> 'a list \<Rightarrow> 'a list completion" where
  "filter_array p [] = Inr []"
| "filter_array p (x # xs) =
     and_then (p x) (\<lambda>keep. and_then (filter_array p xs) (\<lambda>ys. Inr (if keep then x # ys else ys)))"

fun for_each :: "('b \<Rightarrow> 'a \<Rightarrow> 'b completion) \<Rightarrow> 'b \<Rightarrow> 'a list \<Rightarrow> 'b completion" where
  "for_each f acc [] = Inr acc"
| "for_each f acc (x # xs) = and_then (f acc x) (\<lambda>next. for_each f next xs)"

text \<open>
  Reading the property \<open>v.k\<close>, for the keys the sources read (\<open>nodes\<close>,
  \<open>visible\<close>, \<open>name\<close>, \<open>type\<close>, \<open>children\<close>, \<open>textContent\<close>,
  \<open>absoluteBoundingBox\<close>, \<open>width\<close>, \<open>height\<close>, \<open>length\<close>): none of them is
  inherited from a prototype but the \<open>length\<close> of a string and of an array.
\<close>

fun property :: "jsvalue \<Rightarrow> jsstring \<Rightarrow> jsvalue completion" where
  "property JUndefined k = Inl TypeError"
| "property JNull k = Inl TypeError"
| "property (JBool b) k = Inr JUndefined"
| "property (JNumber q) k = Inr JUndefined"
| "property (JString s) k = Inr (if k = str ''length'' then JNumber (of_nat (length s)) else JUndefined)"
| "property (JArray xs) k = Inr (if k = str ''length'' then JNumber (of_nat (length xs)) else JUndefined)"
| "property (JObject members) k = Inr (case map_of members k of None \<Rightarrow> JUndefined | Some v \<Rightarrow> v)"

text \<open>The condition of an \<open>if\<close>, of \<open>&&\<close>, \<open>||\<close> and \<open>? :\<close>.\<close>

fun truthy :: "jsvalue \<Rightarrow> bool" where
  "truthy JUndefined = False"
| "truthy JNull = False"
| "truthy (JBool b) = b"
| "truthy (JNumber q) = (q \<noteq> 0)"
| "truthy (JString s) = (s \<noteq> [])"
| "truthy (JArray xs) = True"
| "truthy (JObject members) = True"

text \<open>
  The string of a value in a template literal. An array is the strings of its elements
  joined by commas, \<open>null\<close> and \<open>undefined\<close> among them left empty. An object of a
  JSON document is \<open>[object Object]\<close>, unless it has a member \<open>toString\<close> of its
  own: that member is no function, the conversion finds no method to call and throws.
\<close>

fun ToString :: "js_runtime \<Rightarrow> jsvalue \<Rightarrow> jsstring completion"
  and element_strings :: "js_runtime \<Rightarrow> jsvalue list \<Rightarrow> jsstring list completion" where
  "ToString rt JUndefined = Inr (str ''undefined'')"
| "ToString rt JNull = Inr (str ''null'')"
| "ToString rt (JBool b) = Inr (if b then str ''true'' else str ''false'')"
| "ToString rt (JNumber q) = Inr (numberToString rt q)"
| "ToString rt (JString s) = Inr s"
| "ToString rt (JArray xs) = and_then (element_strings rt xs) (\<lambda>parts. Inr (join (str '','') parts))"
| "ToString rt (JObject members) =
     (if str ''toString'' \<in> fst ` set members then Inl TypeError else Inr (str ''[object Object]''))"
| "element_strings rt [] = Inr []"
| "element_strings rt (x # xs) =
     and_then (if x = JUndefined \<or> x = JNull then Inr [] else ToString rt x)
       (\<lambda>part. and_then (element_strings rt xs) (\<lambda>parts. Inr (part # parts)))"

text \<open>
  The values of the declared types: a node, a file and their parts as JSON values, a
  field that is absent left out of the object.
\<close>

definition optional :: "jsstring \<Rightarrow> ('a \<Rightarrow> jsvalue) \<Rightarrow> 'a option \<Rightarrow> (jsstring \<times> jsvalue) list" where
  "optional k enc v = (case v of None \<Rightarrow> [] | Some x \<Rightarrow> [(k, enc x)])"

definition encode_box :: "BoundingBox \<Rightarrow> jsvalue" where
  "encode_box box = JObject [(str ''x'', JNumber (x_box box)), (str ''y'', JNumber (y_box box)),
     (str ''width'', JNumber (width box)), (str ''height'', JNumber (height box))]"

definition encode_color :: "Color \<Rightarrow> jsvalue" where
  "encode_color c = JObject [(str ''r'', JNumber (r_ch c)), (str ''g'', JNumber (g_ch c)),
     (str ''b'', JNumber (b_ch c)), (str ''a'', JNumber (a_ch c))]"

definition encode_paint :: "Paint \<Rightarrow> jsvalue" where
  "encode_paint p = JObject ((str ''type'', JString (type_paint p)) # optional (str ''color'') encode_color (color p))"

fun encode_node :: "FigmaNode \<Rightarrow> jsvalue" where
  "encode_node (FigmaNode i nm ty v bb fs ss sw cr fz ff fwt t cs) =
     JObject ([(str ''id'', JString i), (str ''name'', JString nm), (str ''type'', JString ty)]
       @ optional (str ''visible'') JBool v
       @ optional (str ''absoluteBoundingBox'') encode_box bb
       @ optional (str ''fills'') (\<lambda>ps. JArray (map encode_paint ps)) fs
       @ optional (str ''strokes'') (\<lambda>ps. JArray (map encode_paint ps)) ss
       @ optional (str ''strokeWeight'') JNumber sw
       @ optional (str ''cornerRadius'') JNumber cr
       @ optional (str ''fontSize'') JNumber fz
       @ optional (str ''fontFamily'') JString ff
       @ optional (str ''fontWeight'') JNumber fwt
       @ optional (str ''textContent'') JString t
       @ (case cs of None \<Rightarrow> [] | Some ns \<Rightarrow> [(str ''children'', JArray (map encode_node ns))]))"

definition encode_file :: "FigmaFile \<Rightarrow> jsvalue" where
  "encode_file f =
     JObject ([(str ''id'', JString (id_file f)), (str ''name'', JString (name_file f)),
               (str ''nodes'', JArray (map encode_node (nodes f))),
               (str ''componentCount'', JNumber (of_nat (componentCount f))),
               (str ''frameCount'', JNumber (of_nat (frameCount f)))]
       @ optional (str ''raw'') encode_node (raw f))"

text \<open>
  \<^verbatim>\<open>${Math.round(v)}\<close>: \<open>Math.round\<close> converts its argument to a number first,
  \<open>undefined\<close> to \<open>NaN\<close>, \<open>null\<close> to 0, a boolean to 0 or 1, a string by the
  grammar of numeric strings, an array through its string, another object to \<open>NaN\<close>.
\<close>

definition round_text :: "js_runtime \<Rightarrow> jsvalue \<Rightarrow> jsstring completion" where
  "round_text rt v =
     (case v of
        JUndefined \<Rightarrow> Inr (str ''NaN'')
      | JNull \<Rightarrow> Inr (str ''0'')
      | JBool b \<Rightarrow> Inr (if b then str ''1'' else str ''0'')
      | JNumber q \<Rightarrow> Inr (numberToString rt (of_int (Math_round q)))
      | JString s \<Rightarrow> Inr (roundString rt s)
      | JArray xs \<Rightarrow> and_then (ToString rt (JArray xs)) (\<lambda>s. Inr (roundString rt s))
      | JObject members \<Rightarrow>
          if str ''toString'' \<in> fst ` set members then Inl TypeError else Inr (str ''NaN''))"

text \<open>
  The receiver of \<open>name.toLowerCase()\<close> and of \<open>str.split(\<dots>)\<close>: only a string has
  these methods, on any other value the call throws.
\<close>

definition string_receiver :: "jsvalue \<Rightarrow> jsstring completion" where
  "string_receiver v = (case v of JString s \<Rightarrow> Inr s | _ \<Rightarrow> Inl TypeError)"

definition sanitizeFileName_any :: "js_runtime \<Rightarrow> jsvalue \<Rightarrow> jsstring completion" where
  "sanitizeFileName_any rt nm = and_then (string_receiver nm) (\<lambda>s. Inr (sanitizeFileName rt s))"

definition toPascalCase_any :: "js_runtime \<Rightarrow> jsvalue \<Rightarrow> jsstring completion" where
  "toPascalCase_any rt v = and_then (string_receiver v) (\<lambda>s. Inr (toPascalCase rt s))"

text \<open>
  \<^verbatim>\<open>child.type === 'TEXT' && child.textContent?.includes('${')\<close>: the optional chain
  stops at \<open>undefined\<close> and \<open>null\<close>. An array has an \<open>includes\<close> too, which
  looks for an element equal to the string, but no \<open>match\<close>; a number, a boolean and
  an object have neither.
\<close>

definition add_child_props_any :: "jsstring list \<Rightarrow> jsvalue \<Rightarrow> jsstring list completion" where
  "add_child_props_any props child =
     and_then (property child (str ''type'')) (\<lambda>ty.
       if ty \<noteq> JString (str ''TEXT'') then Inr props
       else and_then (property child (str ''textContent'')) (\<lambda>t.
         case t of
           JUndefined \<Rightarrow> Inr props
         | JNull \<Rightarrow> Inr props
         | JString s \<Rightarrow>
             Inr (if sublist (str ''${'') s
                  then (case match_placeholders s of
                          None \<Rightarrow> props
                        | Some matches \<Rightarrow> foldl (\<lambda>ps m. set_add ps (slice_2_minus_1 m)) props matches)
                  else props)
         | JArray xs \<Rightarrow> if JString (str ''${'') \<in> set xs then Inl TypeError else Inr props
         | _ \<Rightarrow> Inl TypeError))"

text \<open>
  \<open>if (node.children) node.children.forEach(\<dots>)\<close>: of the values that pass the test
  only an array has a \<open>forEach\<close>.
\<close>

definition extractPropsFromNode_any :: "jsvalue \<Rightarrow> jsstring list completion" where
  "extractPropsFromNode_any node =
     and_then (property node (str ''children'')) (\<lambda>cs.
       if \<not> truthy cs then Inr []
       else (case cs of
               JArray xs \<Rightarrow> for_each add_child_props_any [] xs
             | _ \<Rightarrow> Inl TypeError))"

text \<open>
  The children of a node. After \<open>!node.children || node.children.length === 0\<close> the
  children are a value with a \<open>length\<close> other than the number 0, or with none; of
  these only an array has a \<open>filter\<close>.
\<close>

definition shown_any :: "jsvalue \<Rightarrow> bool completion" where
  "shown_any c = and_then (property c (str ''visible'')) (\<lambda>v. Inr (v \<noteq> JBool False))"

definition text_or_name_any :: "js_runtime \<Rightarrow> jsvalue \<Rightarrow> jsstring completion" where
  "text_or_name_any rt child =
     and_then (property child (str ''textContent'')) (\<lambda>t.
       if truthy t then ToString rt t
       else and_then (property child (str ''name'')) (ToString rt))"

definition own_text_any :: "js_runtime \<Rightarrow> jsvalue \<Rightarrow> jsstring completion" where
  "own_text_any rt node =
     and_then (property node (str ''textContent'')) (\<lambda>t.
       if truthy t then and_then (ToString rt t) (\<lambda>s. Inr (str ''<p>'' @ s @ str ''</p>''))
       else Inr [])"

definition react_child_any :: "js_runtime \<Rightarrow> jsvalue \<Rightarrow> jsstring completion" where
  "react_child_any rt child =
     and_then (property child (str ''type'')) (\<lambda>ty.
       if ty = JString (str ''TEXT'')
       then and_then (text_or_name_any rt child) (\<lambda>s. Inr (str ''      <p>'' @ s @ str ''</p>''))
       else and_then (property child (str ''name'')) (\<lambda>nm.
              and_then (ToString rt nm) (\<lambda>s. Inr (str ''      <div>{/* '' @ s @ str '' */}</div>''))))"

definition generateReactChildren_any :: "js_runtime \<Rightarrow> jsvalue \<Rightarrow> jsstring completion" where
  "generateReactChildren_any rt node =
     and_then (property node (str ''children'')) (\<lambda>cs.
       if \<not> truthy cs then own_text_any rt node
       else and_then (property cs (str ''length'')) (\<lambda>n.
         if n = JNumber 0 then own_text_any rt node
         else (case cs of
                 JArray xs \<Rightarrow>
                   and_then (filter_array shown_any xs) (\<lambda>kept.
                     and_then (map_array (react_child_any rt) kept) (\<lambda>entries.
                       Inr (join newline entries)))
               | _ \<Rightarrow> Inl TypeError)))"

definition vue_child_any :: "js_runtime \<Rightarrow> jsvalue \<Rightarrow> jsstring completion" where
  "vue_child_any rt child =
     and_then (property child (str ''type'')) (\<lambda>ty.
       if ty = JString (str ''TEXT'')
       then and_then (text_or_name_any rt child) (\<lambda>s. Inr (str ''    <p>'' @ s @ str ''</p>''))
       else and_then (property child (str ''name'')) (\<lambda>nm.
              and_then (ToString rt nm) (\<lambda>s. Inr (str ''    <div><!-- '' @ s @ str '' --></div>''))))"

definition generateVueChildren_any :: "js_runtime \<Rightarrow> jsvalue \<Rightarrow> jsstring completion" where
  "generateVueChildren_any rt node =
     and_then (property node (str ''children'')) (\<lambda>cs.
       if \<not> truthy cs then own_text_any rt node
       else and_then (property cs (str ''length'')) (\<lambda>n.
         if n = JNumber 0 then own_text_any rt node
         else (case cs of
                 JArray xs \<Rightarrow>
                   and_then (filter_array shown_any xs) (\<lambda>kept.
                     and_then (map_array (vue_child_any rt) kept) (\<lambda>entries.
                       Inr (join newline entries)))
               | _ \<Rightarrow> Inl TypeError)))"

definition svelte_child_any :: "js_runtime \<Rightarrow> jsvalue \<Rightarrow> jsstring completion" where
  "svelte_child_any rt child =
     and_then (property child (str ''type'')) (\<lambda>ty.
       if ty = JString (str ''TEXT'')
       then and_then (text_or_name_any rt child) (\<lambda>s. Inr (str ''  <p>'' @ s @ str ''</p>''))
       else and_then (property child (str ''name'')) (\<lambda>nm.
              and_then (ToString rt nm) (\<lambda>s. Inr (str ''  <div><!-- '' @ s @ str '' --></div>''))))"

definition generateSvelteChildren_any :: "js_runtime \<Rightarrow> jsvalue \<Rightarrow> jsstring completion" where
  "generateSvelteChildren_any rt node =
     and_then (property node (str ''children'')) (\<lambda>cs.
       if \<not> truthy cs then own_text_any rt node
       else and_then (property cs (str ''length'')) (\<lambda>n.
         if n = JNumber 0 then own_text_any rt node
         else (case cs of
                 JArray xs \<Rightarrow>
                   and_then (filter_array shown_any xs) (\<lambda>kept.
                     and_then (map_array (svelte_child_any rt) kept) (\<lambda>entries.
                       Inr (join newline entries)))
               | _ \<Rightarrow> Inl TypeError)))"

text \<open>
  The three renderers. Of a bounding box of any shape that passes the test they read
  \<open>width\<close> and \<open>height\<close> and print them rounded; they print \<open>node.name\<close> as the
  template literal converts it.
\<close>

definition dimensions_style_any :: "js_runtime \<Rightarrow> jsvalue \<Rightarrow> jsstring completion" where
  "dimensions_style_any rt node =
     and_then (property node (str ''absoluteBoundingBox'')) (\<lambda>box.
       if \<not> truthy box then Inr []
       else and_then (property box (str ''width'')) (\<lambda>w.
            and_then (round_text rt w) (\<lambda>width_text.
            and_then (property box (str ''height'')) (\<lambda>h.
            and_then (round_text rt h) (\<lambda>height_text.
              Inr (str ''width: '' @ width_text @ str ''px; height: '' @ height_text @ str ''px;''))))))"

definition generateReactComponent_any ::
  "js_runtime \<Rightarrow> jsstring \<Rightarrow> jsvalue \<Rightarrow> jsstring list \<Rightarrow> jsstring completion" where
  "generateReactComponent_any rt nm node props =
     (let propString = (if length props > 0 then str ''{ '' @ join (str '', '') props @ str '' }'' else [])
      in and_then (dimensions_style_any rt node) (\<lambda>dimensions.
         and_then (property node (str ''name'')) (\<lambda>node_name.
         and_then (ToString rt node_name) (\<lambda>node_name_text.
         and_then (generateReactChildren_any rt node) (\<lambda>children_markup.
           Inr (str ''import React from 'react';

interface '' @ nm @ str ''Props {
  '' @ join (str ''
  '') (map (\<lambda>p. p @ str ''?: string | number;'') props) @ str ''
}

export const '' @ nm @ str '': React.FC<'' @ nm @ str ''Props> = ('' @ propString @ str '') => {
  return (
    <div style={{ '' @ dimensions @ str '' }}>
      {/* '' @ node_name_text @ str '' Component */}
      '' @ children_markup @ str ''
    </div>
  );
};

export default '' @ nm @ str '';
''))))))"

definition generateVueComponent_any ::
  "js_runtime \<Rightarrow> jsstring \<Rightarrow> jsvalue \<Rightarrow> jsstring list \<Rightarrow> jsstring completion" where
  "generateVueComponent_any rt nm node props =
     (let propsSection =
            (if length props > 0
             then str ''
  props: {
    '' @ join (str ''
    '') (map (\<lambda>p. p @ str '': String,'') props) @ str ''
  },''
             else [])
      in and_then (dimensions_style_any rt node) (\<lambda>dimensions.
         and_then (property node (str ''name'')) (\<lambda>node_name.
         and_then (ToString rt node_name) (\<lambda>node_name_text.
         and_then (generateVueChildren_any rt node) (\<lambda>children_markup.
           Inr (str ''<template>
  <div style=\"'' @ dimensions @ str ''\">
    <!-- '' @ node_name_text @ str '' Component -->
    '' @ children_markup @ str ''
  </div>
</template>

<script>
export default {
  name: '' @ apostrophe @ nm @ apostrophe @ str '','' @ propsSection @ str ''
};
</script>

<style scoped>
div {
  box-sizing: border-box;
}
</style>
''))))))"

definition generateSvelteComponent_any ::
  "js_runtime \<Rightarrow> jsstring \<Rightarrow> jsvalue \<Rightarrow> jsstring list \<Rightarrow> jsstring completion" where
  "generateSvelteComponent_any rt nm node props =
     (let exportProps = join newline (map (\<lambda>p. str ''export let '' @ p @ str '';'') props)
      in and_then (dimensions_style_any rt node) (\<lambda>dimensions.
         and_then (property node (str ''name'')) (\<lambda>node_name.
         and_then (ToString rt node_name) (\<lambda>node_name_text.
         and_then (generateSvelteChildren_any rt node) (\<lambda>children_markup.
           Inr (str ''<script>
  '' @ exportProps @ str ''
</script>

<div style=\"'' @ dimensions @ str ''\">
  <!-- '' @ node_name_text @ str '' Component -->
  '' @ children_markup @ str ''
</div>

<style>
  div {
    box-sizing: border-box;
  }
</style>
''))))))"

definition generateComponentCode_any :: "js_runtime \<Rightarrow> jsvalue \<Rightarrow> framework \<Rightarrow> jsstring completion" where
  "generateComponentCode_any rt node fw =
     and_then (property node (str ''name'')) (\<lambda>node_name.
     and_then (toPascalCase_any rt node_name) (\<lambda>nm.
     and_then (extractPropsFromNode_any node) (\<lambda>props.
       case fw of
         React \<Rightarrow> generateReactComponent_any rt nm node props
       | Vue \<Rightarrow> generateVueComponent_any rt nm node props
       | Svelte \<Rightarrow> generateSvelteComponent_any rt nm node props)))"

text \<open>
  The filter \<open>n.visible !== false && n.name\<close>, the index and the entry point. Reading
  \<open>figmaFile.nodes\<close> throws when there is no file, and of its values only an array has
  a \<open>filter\<close>.
\<close>

definition valid_node_any :: "jsvalue \<Rightarrow> bool completion" where
  "valid_node_any n =
     and_then (property n (str ''visible'')) (\<lambda>v.
       if v = JBool False then Inr False
       else and_then (property n (str ''name'')) (\<lambda>nm. Inr (truthy nm)))"

definition export_statement_any :: "js_runtime \<Rightarrow> jsvalue \<Rightarrow> jsstring completion" where
  "export_statement_any rt node =
     and_then (property node (str ''name'')) (\<lambda>node_name.
     and_then (toPascalCase_any rt node_name) (\<lambda>nm.
     and_then (sanitizeFileName_any rt node_name) (\<lambda>filename.
       Inr (str ''export { default as '' @ nm @ str '' } from '' @ apostrophe @ str ''./''
            @ filename @ apostrophe @ str '';''))))"

definition generateIndexFile_any :: "js_runtime \<Rightarrow> jsvalue list \<Rightarrow> framework \<Rightarrow> jsstring completion" where
  "generateIndexFile_any rt ns fw =
     and_then (filter_array valid_node_any ns) (\<lambda>kept.
     and_then (map_array (export_statement_any rt) kept) (\<lambda>statements.
       let imports = join newline statements
       in Inr (if fw = Vue
               then str ''// Vue Components'' @ newline @ imports @ newline
               else str ''// '' @ framework_name fw @ str '' Components'' @ newline @ imports @ newline)))"

definition add_component_any ::
  "js_runtime \<Rightarrow> framework \<Rightarrow> (jsstring \<times> jsstring) list \<Rightarrow> jsvalue \<Rightarrow> (jsstring \<times> jsstring) list completion" where
  "add_component_any rt fw comps node =
     and_then (property node (str ''name'')) (\<lambda>node_name.
     and_then (sanitizeFileName_any rt node_name) (\<lambda>filename.
     and_then (generateComponentCode_any rt node fw) (\<lambda>code.
       Inr (AList.update (filename @ str ''.tsx'') code comps))))"

definition convertFigmaToCode_any :: "js_runtime \<Rightarrow> jsvalue \<Rightarrow> framework \<Rightarrow> ConversionResult completion" where
  "convertFigmaToCode_any rt figmaFile fw =
     and_then (property figmaFile (str ''nodes'')) (\<lambda>ns.
       case ns of
         JArray xs \<Rightarrow>
           and_then (filter_array valid_node_any xs) (\<lambda>validNodes.
           and_then (for_each (add_component_any rt fw) [] validNodes) (\<lambda>comps.
           and_then (generateIndexFile_any rt validNodes fw) (\<lambda>indexFile.
             Inr \<lparr>components = comps, index = indexFile\<rparr>)))
       | _ \<Rightarrow> Inl TypeError)"

section \<open>index.ts: the class DesignToCode\<close>

text \<open>
  The interface \<open>FigmaNode\<close> declared beside the class: it has \<open>characters\<close>
  where the one of the client has \<open>textContent\<close>. Its fields carry the suffix
  \<open>_i\<close> where the name is taken.
\<close>

record Effect =
  type_effect :: jsstring

record Constraints =
  horizontal :: jsstring
  vertical :: jsstring

datatype FigmaNode_index = FigmaNode_index
  (id_i: jsstring)
  (name_i: jsstring)
  (type_i: jsstring)
  (visible_i: "bool option")
  (children_i: "FigmaNode_index list option")
  (fills_i: "Paint list option")
  (strokes_i: "Paint list option")
  (effects: "Effect list option")
  (constraints: "Constraints option")
  (absoluteBoundingBox_i: "BoundingBox option")
  (characters: "jsstring option")
  (fontSize_i: "number option")
  (fontWeight_i: "number option")

record ComponentConfig =
  framework :: framework
  outputDir :: jsstring
  typescript :: bool
  tailwind :: bool
  includeStyles :: bool

text \<open>
  The record \<open>props\<close> that \<open>extractProps\<close> builds (a
  \<open>Record<string, any>\<close> in the source); a key it does not set is \<open>None\<close>.
\<close>

record Dimensions =
  width_d :: number
  height_d :: number

record Props =
  id_p :: jsstring
  name_p :: jsstring
  type_p :: jsstring
  children_p :: nat
  dimensions :: "Dimensions option"
  backgroundColor :: "jsstring option"
  text_p :: "jsstring option"
  fontSize_p :: "number option"
  fontWeight_p :: "number option"

text \<open>
  \<^verbatim>\<open>const hex = Math.round(n * 255).toString(16);
  return hex.length === 1 ? '0' + hex : hex;\<close>

  The product is a product of doubles: the exact product, rounded. Where it overflows
  it is an infinity, which \<open>Math.round\<close> returns as it is and \<open>toString(16)\<close>
  prints by its name.
\<close>

definition toHex :: "js_runtime \<Rightarrow> number \<Rightarrow> jsstring" where
  "toHex rt n =
     (let hex = (case round_double (n * 255) of
                   Some product \<Rightarrow> numberToString16 rt (Math_round product)
                 | None \<Rightarrow> if n < 0 then str ''-Infinity'' else str ''Infinity'')
      in if length hex = 1 then str ''0'' @ hex else hex)"

text \<open>
  \<^verbatim>\<open>if (fill.type !== 'SOLID' || !fill.color) return '#000000';
  const { r, g, b } = fill.color;
  return `#${toHex(r)}${toHex(g)}${toHex(b)}`.toUpperCase();\<close>
\<close>

definition colorToHex :: "js_runtime \<Rightarrow> Paint \<Rightarrow> jsstring" where
  "colorToHex rt fill =
     (case color fill of
        None \<Rightarrow> str ''#000000''
      | Some c \<Rightarrow>
          if type_paint fill \<noteq> str ''SOLID'' then str ''#000000''
          else toUpperCase rt (str ''#'' @ toHex rt (r_ch c) @ toHex rt (g_ch c) @ toHex rt (b_ch c)))"

text \<open>\<^verbatim>\<open>name.replace(/[^a-zA-Z0-9]/g, '')\<close>\<close>

definition sanitizeName :: "jsstring \<Rightarrow> jsstring" where
  "sanitizeName nm = filter is_alnum nm"

text \<open>\<open>node.fontSize || 14\<close>: an absent number and zero are falsy.\<close>

definition or_default :: "number option \<Rightarrow> number \<Rightarrow> number" where
  "or_default v d = (case v of None \<Rightarrow> d | Some q \<Rightarrow> if q = 0 then d else q)"

text \<open>\<open>if (node.characters)\<close>: absent and the empty string are falsy.\<close>

definition has_text :: "FigmaNode_index \<Rightarrow> bool" where
  "has_text node = (case characters node of None \<Rightarrow> False | Some t \<Rightarrow> t \<noteq> [])"

definition extractProps :: "js_runtime \<Rightarrow> FigmaNode_index \<Rightarrow> Props" where
  "extractProps rt node =
     \<lparr>id_p = id_i node,
      name_p = sanitizeName (name_i node),
      type_p = type_i node,
      children_p = (case children_i node of None \<Rightarrow> 0 | Some cs \<Rightarrow> length cs),
      dimensions = (case absoluteBoundingBox_i node of
                      None \<Rightarrow> None
                    | Some box \<Rightarrow> Some \<lparr>width_d = width box, height_d = height box\<rparr>),
      backgroundColor = (case fills_i node of
                           None \<Rightarrow> None
                         | Some [] \<Rightarrow> None
                         | Some (fill # others) \<Rightarrow> Some (colorToHex rt fill)),
      text_p = (if has_text node then characters node else None),
      fontSize_p = (if has_text node then Some (or_default (fontSize_i node) 14) else None),
      fontWeight_p = (if has_text node then Some (or_default (fontWeight_i node) 400) else None)\<rparr>"

text \<open>
  \<^verbatim>\<open>const size = Math.round(props.fontSize / 4);
  classes.push(`text-${size > 16 ? `[${props.fontSize}px]` : size}`);\<close>

  The quotient of a double by 4 is a double, but for a quotient among the subnormal
  numbers, where the rounded and the exact quotient both round to the integer 0: the
  exact quotient gives the \<open>size\<close> of the source for every double.
\<close>

definition font_size_class :: "js_runtime \<Rightarrow> number \<Rightarrow> jsstring" where
  "font_size_class rt fs =
     (let size = Math_round (fs / 4)
      in str ''text-'' @ (if size > 16 then str ''['' @ numberToString rt fs @ str ''px]''
                          else numberToString rt (of_int size)))"

text \<open>
  The array \<open>classes\<close> of \<open>generateTailwindClasses\<close>, which the method joins
  with spaces. \<open>if (props.backgroundColor)\<close> and \<open>if (props.fontSize)\<close> test
  for a truthy value: a non-empty string, a number other than zero.
\<close>

definition tailwind_classes :: "js_runtime \<Rightarrow> Props \<Rightarrow> jsstring list" where
  "tailwind_classes rt props =
     (case dimensions props of
        None \<Rightarrow> []
      | Some d \<Rightarrow> [str ''w-['' @ numberToString rt (of_int (Math_round (width_d d))) @ str ''px]'',
                  str ''h-['' @ numberToString rt (of_int (Math_round (height_d d))) @ str ''px]''])
     @ (case backgroundColor props of
          None \<Rightarrow> []
        | Some hex \<Rightarrow> if hex \<noteq> [] then [str ''bg-['' @ hex @ str '']''] else [])
     @ (case fontSize_p props of
          None \<Rightarrow> []
        | Some fs \<Rightarrow> if fs \<noteq> 0 then [font_size_class rt fs] else [])"

definition generateTailwindClasses :: "js_runtime \<Rightarrow> Props \<Rightarrow> jsstring" where
  "generateTailwindClasses rt props = join (str '' '') (tailwind_classes rt props)"

text \<open>
  The private \<open>toPascalCase\<close> of the class: the one of the converter without its
  last \<open>replace\<close>.
\<close>

definition toPascalCase_index :: "js_runtime \<Rightarrow> jsstring \<Rightarrow> jsstring" where
  "toPascalCase_index rt s = join [] (map (capitalize rt) (split_runs is_separator s))"

text \<open>
  \<open>generateComponent\<close> returns the pair of the code and the file name. The file
  name does not depend on the code; it is what is modelled here, with the extension the
  \<open>switch\<close> on the framework chooses.
\<close>

definition component_extension :: "ComponentConfig \<Rightarrow> jsstring" where
  "component_extension config =
     (case framework config of
        React \<Rightarrow> if typescript config then str ''tsx'' else str ''jsx''
      | Vue \<Rightarrow> str ''vue''
      | Svelte \<Rightarrow> str ''svelte'')"

definition generateComponent_filename :: "js_runtime \<Rightarrow> ComponentConfig \<Rightarrow> FigmaNode_index \<Rightarrow> jsstring" where
  "generateComponent_filename rt config node =
     (let props = extractProps rt node;
          componentName = toPascalCase_index rt (name_p props)
      in componentName @ str ''.'' @ component_extension config)"

section \<open>Reading the outputs\<close>

text \<open>
  The first line of the index, as \<open>generateIndexFile\<close> writes it.
\<close>

definition index_header :: "framework \<Rightarrow> jsstring" where
  "index_header fw = (if fw = Vue then str ''// Vue Components'' else str ''// '' @ framework_name fw @ str '' Components'')"

text \<open>
  The lines of a text (\<open>text.split('\n')\<close>), and the statements of an index: its lines
  after the first, the empty ones left out.
\<close>

fun lines_of :: "jsstring \<Rightarrow> jsstring list" where
  "lines_of [] = [[]]"
| "lines_of (c # cs) =
     (if c = 10 then [] # lines_of cs
      else (case lines_of cs of [] \<Rightarrow> [[c]] | l # ls \<Rightarrow> (c # l) # ls))"

definition export_lines :: "jsstring \<Rightarrow> jsstring list" where
  "export_lines text = filter (\<lambda>l. l \<noteq> []) (tl (lines_of text))"

text \<open>
  The specification's "string/number typed", read on the rendered text. At its weakest
  an input is typed when the text names a string or number type at all, in TypeScript
  (\<open>string\<close>, \<open>number\<close>) or among Vue's prop options (\<open>String\<close>,
  \<open>Number\<close>); typed as string and number alike, it names a number type.
\<close>

definition names_number_type :: "jsstring \<Rightarrow> bool" where
  "names_number_type text = (sublist (str ''number'') text \<or> sublist (str ''Number'') text)"

definition names_a_type :: "jsstring \<Rightarrow> bool" where
  "names_a_type text =
     (sublist (str ''string'') text \<or> sublist (str ''String'') text \<or> names_number_type text)"

text \<open>
  The specification's "distinct names, first-seen order": a list with every repetition
  after the first occurrence left out. And the names a child brings: for a TEXT layer
  with a text, the words of its placeholders \<^verbatim>\<open>${word}\<close>, from left to right.
\<close>

fun first_occurrences :: "'a list \<Rightarrow> 'a list" where
  "first_occurrences [] = []"
| "first_occurrences (x # xs) = x # filter (\<lambda>y. y \<noteq> x) (first_occurrences xs)"

definition placeholder_names :: "FigmaNode \<Rightarrow> jsstring list" where
  "placeholder_names child =
     (if type child = str ''TEXT''
      then (case textContent child of
              None \<Rightarrow> []
            | Some t \<Rightarrow> map slice_2_minus_1 (match_all t))
      else [])"

text \<open>
  The specification's "uppercase 6-digit hex triplet": two upper-case hexadecimal digits
  for a value below 256, and a channel within \<open>[0, 1]\<close>.
\<close>

definition upper_hex_digit :: "nat \<Rightarrow> code_unit" where
  "upper_hex_digit d = (if d < 10 then 48 + d else 55 + d)"

definition hex_pair :: "nat \<Rightarrow> jsstring" where
  "hex_pair n = [upper_hex_digit (n div 16), upper_hex_digit (n mod 16)]"

definition in_unit_interval :: "number \<Rightarrow> bool" where
  "in_unit_interval q = (0 \<le> q \<and> q \<le> 1)"

text \<open>
  The specification's \<open>round(channel * 255)\<close>, the product being the product of
  doubles (0 stands for an infinite one, which no channel within \<open>[0, 1]\<close> gives).
\<close>

definition channel_byte :: "number \<Rightarrow> nat" where
  "channel_byte q =
     (case round_double (q * 255) of Some product \<Rightarrow> nat (Math_round product) | None \<Rightarrow> 0)"

text \<open>
  The specification's reading of the index, not the code's: of the nodes that share a
  file slug only the first is kept for export.
\<close>

fun spec_collapse_duplicates :: "js_runtime \<Rightarrow> jsstring list \<Rightarrow> FigmaNode list \<Rightarrow> FigmaNode list" where
  "spec_collapse_duplicates rt seen [] = []"
| "spec_collapse_duplicates rt seen (n # ns) =
     (let slug = sanitizeFileName rt (name n)
      in if slug \<in> set seen then spec_collapse_duplicates rt seen ns
         else n # spec_collapse_duplicates rt (slug # seen) ns)"

section \<open>Sample documents\<close>

text \<open>
  Concrete nodes and files for the closed theorems: a node with every optional field
  absent, a text layer, a frame with children, the hidden copy of a node, and a file
  holding given nodes.
\<close>

definition bare_node :: "jsstring \<Rightarrow> jsstring \<Rightarrow> FigmaNode" where
  "bare_node nm ty =
     FigmaNode (str ''1:1'') nm ty None None None None None None None None None None None"

definition text_node :: "jsstring \<Rightarrow> jsstring \<Rightarrow> FigmaNode" where
  "text_node nm t =
     FigmaNode (str ''1:2'') nm (str ''TEXT'') None None None None None None None None None (Some t) None"

definition frame_with :: "jsstring \<Rightarrow> FigmaNode list \<Rightarrow> FigmaNode" where
  "frame_with nm cs =
     FigmaNode (str ''1:3'') nm (str ''FRAME'') None None None None None None None None None None (Some cs)"

definition hidden :: "FigmaNode \<Rightarrow> FigmaNode" where
  "hidden n = (case n of FigmaNode i nm ty v bb fs ss sw cr fz ff fwt t cs \<Rightarrow>
     FigmaNode i nm ty (Some False) bb fs ss sw cr fz ff fwt t cs)"

definition file_of :: "FigmaNode list \<Rightarrow> FigmaFile" where
  "file_of ns = \<lparr>id_file = str ''abc123'', name_file = str ''Design'', nodes = ns,
     componentCount = 0, frameCount = length ns, raw = None\<rparr>"

text \<open>A frame whose one child is a text layer with the placeholder of the README.\<close>

definition greeting :: FigmaNode where
  "greeting = frame_with (str ''Greeting'') [text_node (str ''label'') (str ''Hello, ${userName}'')]"

text \<open>
  Documents that do not have the declared types: a file whose one node has the number 42
  for a name, and a file whose one node has the number 3 for children.
\<close>

definition file_with_numeric_name :: jsvalue where
  "file_with_numeric_name =
     JObject [(str ''nodes'', JArray [JObject [(str ''id'', JString (str ''1:1'')),
       (str ''name'', JNumber 42), (str ''type'', JString (str ''FRAME''))]])]"

definition file_with_numeric_children :: jsvalue where
  "file_with_numeric_children =
     JObject [(str ''nodes'', JArray [JObject [(str ''id'', JString (str ''1:1'')),
       (str ''name'', JString (str ''Card'')), (str ''type'', JString (str ''FRAME'')),
       (str ''children'', JNumber 3)]])]"

text \<open>A frame with two text layers, three placeholder names and one of them twice.\<close>

definition welcome_frame :: FigmaNode where
  "welcome_frame = frame_with (str ''Welcome'')
     [text_node (str ''label'') (str ''Hello, ${userName}''),
      text_node (str ''line'') (str ''${greeting}, ${userName} ${title}'')]"

text \<open>
  Nodes for the class: a text layer with a given font size, a frame with every optional
  field absent, a frame with given fills, and a SOLID fill of a given colour. The sample
  channels are doubles (halves, quarters, integers).
\<close>

definition text_layer :: "jsstring \<Rightarrow> number option \<Rightarrow> FigmaNode_index" where
  "text_layer t fs = FigmaNode_index (str ''1:9'') (str ''label'') (str ''TEXT'') None None None None None None None
     (Some t) fs None"

definition bare_layer :: FigmaNode_index where
  "bare_layer = FigmaNode_index (str ''1:5'') (str ''Spacer'') (str ''FRAME'') None None None
     None None None None None None None"

definition with_fills :: "Paint list \<Rightarrow> FigmaNode_index" where
  "with_fills ps = FigmaNode_index (str ''1:4'') (str ''Card'') (str ''FRAME'') None None (Some ps)
     None None None None None None None"

definition solid :: "number \<Rightarrow> number \<Rightarrow> number \<Rightarrow> Paint" where
  "solid r g b = \<lparr>type_paint = str ''SOLID'', color = Some \<lparr>r_ch = r, g_ch = g, b_ch = b, a_ch = 1\<rparr>\<rparr>"

section \<open>Component identity: what the sanitizers guarantee\<close>

lemmas char_class_defs = is_separator_def is_space_def is_alnum_def is_slug_char_def
  is_lower_def is_upper_def is_digit_def is_word_def

lemmas identity_defs = toPascalCase_def sanitizeFileName_def capitalize_def split_runs_def
  replace_runs_def ascii_runtime_def ascii_upper_def ascii_lower_def str_def

lemma toPascalCase_alnum: "list_all is_alnum (toPascalCase rt nm)"
  by (simp add: toPascalCase_def list_all_iff)

lemma sanitizeFileName_slug: "list_all is_slug_char (sanitizeFileName rt nm)"
  unfolding sanitizeFileName_def list_all_iff by (auto dest: in_set_takeD)

text \<open>
  C1, as the code has it. For every raw name and every runtime, the display name holds
  only code units of \<^verbatim>\<open>[A-Za-z0-9]\<close> and the file slug only code units of
  \<^verbatim>\<open>[a-z0-9-]\<close>, at most 50 of them. Neither is promised to be non-empty:
  the code has no fallback name.
\<close>

theorem identity_charset:
  "list_all is_alnum (toPascalCase rt nm)
   \<and> list_all is_slug_char (sanitizeFileName rt nm)
   \<and> length (sanitizeFileName rt nm) \<le> 50"
proof (intro conjI)
  show "list_all is_alnum (toPascalCase rt nm)"
    by (rule toPascalCase_alnum)
  show "list_all is_slug_char (sanitizeFileName rt nm)"
    by (rule sanitizeFileName_slug)
  show "length (sanitizeFileName rt nm) \<le> 50"
    by (simp add: sanitizeFileName_def)
qed

text \<open>
  C1 as stated fails: the empty name and the all-punctuation name \<open>!!!\<close> both give
  an empty display name and an empty file slug.
\<close>

theorem identity_empty_counterexample:
  "toPascalCase ascii_runtime (str '''') = []
   \<and> sanitizeFileName ascii_runtime (str '''') = []
   \<and> toPascalCase ascii_runtime (str ''!!!'') = []
   \<and> sanitizeFileName ascii_runtime (str ''!!!'') = []"
  by (simp add: identity_defs char_class_defs)

lemmas fixture_defs = bare_node_def text_node_def frame_with_def hidden_def file_of_def

section \<open>The entry point skips a node without a name\<close>

text \<open>
  C10. A node whose name is the empty string does not pass the filter of the entry
  point, whatever its kind and visibility: converting a file that holds it gives the
  result of converting the file without it, so it has no component entry and no line of
  the index.
\<close>

theorem unnamed_node_excluded:
  assumes "name n = []"
  shows "convertFigmaToCode rt (figmaFile\<lparr>nodes := before @ n # after\<rparr>) fw
         = convertFigmaToCode rt (figmaFile\<lparr>nodes := before @ after\<rparr>) fw"
  using assms by (simp add: convertFigmaToCode_def valid_node_def)

theorem unnamed_node_excluded_witness:
  "name (bare_node [] (str ''FRAME'')) = []
   \<and> convertFigmaToCode ascii_runtime
        ((file_of [])\<lparr>nodes := [bare_node (str ''Button'') (str ''FRAME'')] @ bare_node [] (str ''FRAME'') # []\<rparr>) React
     = convertFigmaToCode ascii_runtime
        ((file_of [])\<lparr>nodes := [bare_node (str ''Button'') (str ''FRAME'')] @ []\<rparr>) React"
proof -
  have h: "name (bare_node [] (str ''FRAME'')) = []"
    by (simp add: bare_node_def)
  show ?thesis
    using h unnamed_node_excluded [OF h] by blast
qed

section \<open>Hidden children\<close>

lemma filter_shown_hidden:
  "visible c = Some False \<Longrightarrow> filter shown (before @ c # after) = filter shown (before @ after)"
  by (simp add: shown_def)

lemma children_nonempty_cases:
  "(case Some (before @ c # after) of None \<Rightarrow> a | Some [] \<Rightarrow> a | Some (x # xs) \<Rightarrow> f (x # xs))
   = f (before @ c # after)"
  by (cases before) simp_all

text \<open>
  C7. A child with \<open>visible\<close> set to \<open>false\<close> adds nothing to the markup of
  any of the three renderers: the markup of the children is the joined entries of the
  other children that are not hidden, whatever the kind, the name or the text of the
  hidden one. (Where the hidden child is the only child the markup is empty: the
  node's own text is rendered only for a node without children.)
\<close>

theorem hidden_child_not_rendered:
  assumes "visible c = Some False" and "children node = Some (before @ c # after)"
  shows "generateReactChildren node = join newline (map react_child (filter shown (before @ after)))
       \<and> generateVueChildren node = join newline (map vue_child (filter shown (before @ after)))
       \<and> generateSvelteChildren node = join newline (map svelte_child (filter shown (before @ after)))"
proof (intro conjI)
  note hid = filter_shown_hidden [OF assms(1), of before after]
  show "generateReactChildren node = join newline (map react_child (filter shown (before @ after)))"
    unfolding generateReactChildren_def assms(2)
    by (simp only: children_nonempty_cases [where f = "\<lambda>cs. join newline (map react_child (filter shown cs))"] hid)
  show "generateVueChildren node = join newline (map vue_child (filter shown (before @ after)))"
    unfolding generateVueChildren_def assms(2)
    by (simp only: children_nonempty_cases [where f = "\<lambda>cs. join newline (map vue_child (filter shown cs))"] hid)
  show "generateSvelteChildren node = join newline (map svelte_child (filter shown (before @ after)))"
    unfolding generateSvelteChildren_def assms(2)
    by (simp only: children_nonempty_cases [where f = "\<lambda>cs. join newline (map svelte_child (filter shown cs))"] hid)
qed

theorem hidden_child_not_rendered_witness:
  "visible (hidden (text_node (str ''secret'') (str ''do not show''))) = Some False
   \<and> children (frame_with (str ''Card'')
        ([text_node (str ''title'') (str ''Hi'')] @ hidden (text_node (str ''secret'') (str ''do not show'')) # []))
      = Some ([text_node (str ''title'') (str ''Hi'')] @ hidden (text_node (str ''secret'') (str ''do not show'')) # [])
   \<and> generateReactChildren (frame_with (str ''Card'')
        ([text_node (str ''title'') (str ''Hi'')] @ hidden (text_node (str ''secret'') (str ''do not show'')) # []))
      = str ''      <p>Hi</p>''"
proof -
  let ?c = "hidden (text_node (str ''secret'') (str ''do not show''))"
  let ?n = "frame_with (str ''Card'') ([text_node (str ''title'') (str ''Hi'')] @ ?c # [])"
  have h1: "visible ?c = Some False"
    by (simp add: hidden_def text_node_def)
  have h2: "children ?n = Some ([text_node (str ''title'') (str ''Hi'')] @ ?c # [])"
    by (simp add: frame_with_def)
  have "generateReactChildren ?n = join newline (map react_child (filter shown ([text_node (str ''title'') (str ''Hi'')] @ [])))"
    using hidden_child_not_rendered [OF h1 h2] by blast
  also have "\<dots> = str ''      <p>Hi</p>''"
    by (simp add: shown_def react_child_def text_or_name_def text_node_def str_def)
  finally show ?thesis using h1 h2 by blast
qed

section \<open>The index file\<close>

lemma lines_of_line:
  "10 \<notin> set l \<Longrightarrow> lines_of (l @ 10 # rest) = l # lines_of rest"
  by (induction l) auto

lemma lines_of_join:
  "\<forall>l \<in> set ls. 10 \<notin> set l \<Longrightarrow> lines_of (join newline ls @ newline @ rest) = 
     (if ls = [] then [] # lines_of rest else ls @ lines_of rest)"
proof (induction newline ls rule: join.induct)
  case 1
  then show ?case by (simp add: newline_def)
next
  case (2 w)
  then show ?case by (simp add: newline_def lines_of_line)
next
  case (3 w v ws)
  then show ?case by (simp add: newline_def lines_of_line)
qed

lemma alnum_no_newline: "list_all is_alnum s \<Longrightarrow> 10 \<notin> set s"
  by (auto simp: list_all_iff char_class_defs)

lemma slug_no_newline: "list_all is_slug_char s \<Longrightarrow> 10 \<notin> set s"
  by (auto simp: list_all_iff char_class_defs)

lemma export_statement_no_newline: "10 \<notin> set (export_statement rt n)"
proof -
  have "10 \<notin> set (toPascalCase rt (name n))"
    using toPascalCase_alnum alnum_no_newline by blast
  moreover have "10 \<notin> set (sanitizeFileName rt (name n))"
    using sanitizeFileName_slug slug_no_newline by blast
  ultimately show ?thesis
    by (simp add: export_statement_def Let_def str_def apostrophe_def)
qed

lemma export_statement_not_empty: "export_statement rt n \<noteq> []"
  by (simp add: export_statement_def Let_def str_def)

lemma index_header_no_newline: "10 \<notin> set (index_header fw)"
  by (cases fw) (simp_all add: index_header_def framework_name_def str_def)

lemma generateIndexFile_shape:
  "generateIndexFile rt ns fw
   = index_header fw @ 10 # (join newline (map (export_statement rt) (filter valid_node ns)) @ newline @ [])"
  by (simp add: generateIndexFile_def index_header_def Let_def newline_def)

text \<open>
  C5, as the code has it. The index holds one export statement for every node that
  passes the filter (visible not false, name not empty), in the order of the nodes, each
  naming the display name and the path \<open>./{fileSlug}\<close>. Nodes that share a file
  slug are not collapsed: each has its statement.
\<close>

theorem index_one_statement_per_node:
  "export_lines (generateIndexFile rt ns fw)
   = map (\<lambda>n. str ''export { default as '' @ toPascalCase rt (name n) @ str '' } from ''
               @ apostrophe @ str ''./'' @ sanitizeFileName rt (name n) @ apostrophe @ str '';'')
         (filter valid_node ns)"
proof -
  let ?stmts = "map (export_statement rt) (filter valid_node ns)"
  have nonl: "\<forall>l \<in> set ?stmts. 10 \<notin> set l"
    using export_statement_no_newline by auto
  have ne: "filter (\<lambda>l. l \<noteq> []) ?stmts = ?stmts"
    using export_statement_not_empty by (simp add: filter_id_conv)
  have "lines_of (generateIndexFile rt ns fw)
        = index_header fw # (if ?stmts = [] then [] # lines_of [] else ?stmts @ lines_of [])"
    unfolding generateIndexFile_shape
    by (simp only: lines_of_line [OF index_header_no_newline] lines_of_join [OF nonl])
  then have "export_lines (generateIndexFile rt ns fw) = filter (\<lambda>l. l \<noteq> []) ?stmts"
    by (simp add: export_lines_def)
  then show ?thesis
    by (simp only: ne) (simp add: export_statement_def Let_def)
qed

text \<open>
  C5 as stated fails: two nodes named \<open>Button\<close> give the same statement twice,
  where the collapsed list of the specification has one.
\<close>

theorem index_duplicates_counterexample:
  "export_lines (generateIndexFile ascii_runtime
       [bare_node (str ''Button'') (str ''FRAME''), bare_node (str ''Button'') (str ''COMPONENT'')] React)
     = [str ''export { default as Button } from './button';'',
        str ''export { default as Button } from './button';'']
   \<and> map (export_statement ascii_runtime) (spec_collapse_duplicates ascii_runtime []
       [bare_node (str ''Button'') (str ''FRAME''), bare_node (str ''Button'') (str ''COMPONENT'')])
     = [str ''export { default as Button } from './button';'']"
  by (simp add: generateIndexFile_def export_lines_def export_statement_def valid_node_def
      framework_name_def newline_def apostrophe_def bare_node_def identity_defs char_class_defs)

section \<open>Template inputs\<close>

lemma set_add_subset: "set props \<subseteq> set (set_add props p)"
  by (auto simp: set_add_def)

lemma set_add_member: "p \<in> set (set_add props p)"
  by (simp add: set_add_def)

lemma set_add_distinct: "distinct props \<Longrightarrow> distinct (set_add props p)"
  by (simp add: set_add_def)

lemma foldl_set_add_subset: "set props \<subseteq> set (foldl (\<lambda>ps m. set_add ps (f m)) props ms)"
proof (induction ms arbitrary: props)
  case Nil
  then show ?case by simp
next
  case (Cons m ms)
  have "set props \<subseteq> set (set_add props (f m))"
    by (rule set_add_subset)
  also have "\<dots> \<subseteq> set (foldl (\<lambda>ps m. set_add ps (f m)) (set_add props (f m)) ms)"
    by (rule Cons.IH)
  finally show ?case by simp
qed

lemma foldl_set_add_distinct:
  "distinct props \<Longrightarrow> distinct (foldl (\<lambda>ps m. set_add ps (f m)) props ms)"
  by (induction ms arbitrary: props) (simp_all add: set_add_distinct)

lemma add_child_props_subset: "set props \<subseteq> set (add_child_props props c)"
  by (auto simp: add_child_props_def split: option.splits dest: subsetD [OF foldl_set_add_subset])

lemma add_child_props_distinct: "distinct props \<Longrightarrow> distinct (add_child_props props c)"
  by (simp add: add_child_props_def foldl_set_add_distinct split: option.splits)

lemma foldl_add_child_props_subset: "set props \<subseteq> set (foldl add_child_props props cs)"
proof (induction cs arbitrary: props)
  case Nil
  then show ?case by simp
next
  case (Cons c cs)
  have "set props \<subseteq> set (add_child_props props c)"
    by (rule add_child_props_subset)
  also have "\<dots> \<subseteq> set (foldl add_child_props (add_child_props props c) cs)"
    by (rule Cons.IH)
  finally show ?case by simp
qed

lemma foldl_add_child_props_distinct:
  "distinct props \<Longrightarrow> distinct (foldl add_child_props props cs)"
  by (induction cs arbitrary: props) (simp_all add: add_child_props_distinct)

lemma hello_matches:
  "match_placeholders (str ''Hello, ${userName}'') = Some [str ''${userName}'']"
  by (simp add: match_placeholders_def match_here_def str_def char_class_defs)

lemma hello_includes: "sublist (str ''${'') (str ''Hello, ${userName}'')"
  by (simp add: str_def sublist_Cons_right)

lemma hello_slice: "slice_2_minus_1 (str ''${userName}'') = str ''userName''"
  by (simp add: slice_2_minus_1_def str_def)

lemma add_hello_child:
  assumes "type child = str ''TEXT''" and "textContent child = Some (str ''Hello, ${userName}'')"
  shows "add_child_props props child = set_add props (str ''userName'')"
  using assms by (simp add: add_child_props_def hello_matches hello_includes hello_slice)

lemma foldl_add_child_props_hello:
  assumes "type child = str ''TEXT''" and "textContent child = Some (str ''Hello, ${userName}'')"
    and "child \<in> set cs"
  shows "str ''userName'' \<in> set (foldl add_child_props props cs)"
  using assms(3)
proof (induction cs arbitrary: props)
  case Nil
  then show ?case by simp
next
  case (Cons c cs)
  show ?case
  proof (cases "c = child")
    case True
    have "str ''userName'' \<in> set (add_child_props props c)"
      using True assms(1,2) by (simp add: add_hello_child set_add_member)
    then show ?thesis
      using foldl_add_child_props_subset [of "add_child_props props c" cs] by auto
  next
    case False
    then have "child \<in> set cs" using Cons.prems by simp
    then show ?thesis using Cons.IH by simp
  qed
qed

lemma sublist_join: "w \<in> set ws \<Longrightarrow> sublist w (join sep ws)"
proof (induction sep ws rule: join.induct)
  case (1 sep)
  then show ?case by simp
next
  case (2 sep v)
  then show ?case by simp
next
  case (3 sep v u ws)
  then show ?case by (auto simp: sublist_append)
qed

lemma react_declares:
  "p \<in> set props \<Longrightarrow> sublist (p @ str ''?: string | number;'') (generateReactComponent rt nm node props)"
  using sublist_join [of "p @ str ''?: string | number;''" "map (\<lambda>p. p @ str ''?: string | number;'') props"]
  by (simp add: generateReactComponent_def Let_def sublist_append)

lemma vue_declares:
  "p \<in> set props \<Longrightarrow> sublist (p @ str '': String,'') (generateVueComponent rt nm node props)"
  using sublist_join [of "p @ str '': String,''" "map (\<lambda>p. p @ str '': String,'') props"]
  by (auto simp: generateVueComponent_def Let_def sublist_append)

lemma svelte_declares:
  "p \<in> set props \<Longrightarrow> sublist (str ''export let '' @ p @ str '';'') (generateSvelteComponent rt nm node props)"
  using sublist_join [of "str ''export let '' @ p @ str '';''" "map (\<lambda>p. str ''export let '' @ p @ str '';'') props"]
  by (simp add: generateSvelteComponent_def Let_def sublist_append)

lemma str_append: "str (a @ b) = str a @ str b"
  by (simp add: str_def)

subsection \<open>The order of the inputs\<close>

text \<open>
  Adding names to a set one by one appends, in their order, the first occurrences of
  those the set does not hold.
\<close>

lemma foldl_set_add:
  "foldl set_add acc xs = acc @ filter (\<lambda>y. y \<notin> set acc) (first_occurrences xs)"
proof (induction xs arbitrary: acc)
  case Nil
  show ?case by simp
next
  case (Cons x xs)
  have step: "foldl set_add acc (x # xs)
              = set_add acc x @ filter (\<lambda>y. y \<notin> set (set_add acc x)) (first_occurrences xs)"
    by (simp add: Cons.IH)
  show ?case
  proof (cases "x \<in> set acc")
    case True
    then have "filter (\<lambda>y. y \<notin> set acc) (filter (\<lambda>y. y \<noteq> x) (first_occurrences xs))
               = filter (\<lambda>y. y \<notin> set acc) (first_occurrences xs)"
      unfolding filter_filter by (intro filter_cong) auto
    then show ?thesis
      unfolding step using True by (simp add: set_add_def)
  next
    case False
    have "filter (\<lambda>y. y \<notin> set acc) (filter (\<lambda>y. y \<noteq> x) (first_occurrences xs))
          = filter (\<lambda>y. y \<notin> set (acc @ [x])) (first_occurrences xs)"
      unfolding filter_filter by (intro filter_cong) auto
    then show ?thesis
      unfolding step using False by (simp add: set_add_def)
  qed
qed

lemma match_all_includes: "match_all s \<noteq> [] \<Longrightarrow> sublist (str ''${'') s"
proof (induction s rule: match_all.induct)
  case 1
  then show ?case by simp
next
  case (2 c cs)
  show ?case
  proof (cases "match_here (c # cs)")
    case None
    then have "sublist (str ''${'') cs"
      using 2 by simp
    then show ?thesis by (simp add: sublist_Cons_right)
  next
    case (Some found)
    then have "prefix (str ''${'') (c # cs)"
      by (auto simp: match_here_def Let_def split: if_splits)
    then show ?thesis by (rule prefix_imp_sublist)
  qed
qed

lemma add_child_props_names:
  "add_child_props props child = foldl set_add props (placeholder_names child)"
proof (cases "textContent child")
  case None
  then show ?thesis by (simp add: add_child_props_def placeholder_names_def)
next
  case (Some t)
  show ?thesis
  proof (cases "match_all t")
    case Nil
    then show ?thesis
      by (simp add: add_child_props_def placeholder_names_def Some match_placeholders_def)
  next
    case (Cons m ms)
    then have "sublist (str ''${'') t"
      using match_all_includes [of t] by simp
    then show ?thesis
      by (simp add: add_child_props_def placeholder_names_def Some match_placeholders_def Cons
          foldl_map)
  qed
qed

lemma foldl_add_child_props_names:
  "foldl add_child_props props cs = foldl set_add props (concat (map placeholder_names cs))"
  by (induction cs arbitrary: props) (simp_all add: add_child_props_names)

lemma extracted_in_order:
  "children node = Some cs \<Longrightarrow>
   extractPropsFromNode node = first_occurrences (concat (map placeholder_names cs))"
  by (simp add: extractPropsFromNode_def foldl_add_child_props_names foldl_set_add)

text \<open>
  C2, as the code has it. The extracted inputs of a node are the placeholder names of
  its children, each name once, in the order of their first occurrence. A direct text
  child with the content \<open>Hello, ${userName}\<close> makes \<open>userName\<close> one of them, and
  the only one when it is the only child. Each renderer declares it: React as
  \<open>userName?: string | number;\<close> (optional, string or number), Vue as
  \<open>userName: String,\<close> (a prop option of type String) and Svelte as
  \<open>export let userName;\<close> (no type).
\<close>

theorem placeholder_becomes_input:
  assumes "type child = str ''TEXT''"
    and "textContent child = Some (str ''Hello, ${userName}'')"
    and "children node = Some cs"
    and "child \<in> set cs"
  shows "str ''userName'' \<in> set (extractPropsFromNode node)
       \<and> distinct (extractPropsFromNode node)
       \<and> extractPropsFromNode node = first_occurrences (concat (map placeholder_names cs))
       \<and> (cs = [child] \<longrightarrow> extractPropsFromNode node = [str ''userName''])
       \<and> sublist (str ''userName?: string | number;'') (generateComponentCode rt node React)
       \<and> sublist (str ''userName: String,'') (generateComponentCode rt node Vue)
       \<and> sublist (str ''export let userName;'') (generateComponentCode rt node Svelte)"
proof -
  have props: "extractPropsFromNode node = foldl add_child_props [] cs"
    by (simp add: extractPropsFromNode_def assms(3))
  have mem: "str ''userName'' \<in> set (extractPropsFromNode node)"
    unfolding props by (rule foldl_add_child_props_hello [OF assms(1,2,4)])
  have dist: "distinct (extractPropsFromNode node)"
    unfolding props by (rule foldl_add_child_props_distinct) simp
  have order: "extractPropsFromNode node = first_occurrences (concat (map placeholder_names cs))"
    by (rule extracted_in_order [OF assms(3)])
  have single: "cs = [child] \<longrightarrow> extractPropsFromNode node = [str ''userName'']"
    unfolding props by (simp add: add_hello_child [OF assms(1,2)] set_add_def)
  have react: "sublist (str ''userName?: string | number;'') (generateComponentCode rt node React)"
    using react_declares [OF mem, of rt "toPascalCase rt (name node)" node]
    by (simp add: generateComponentCode_def Let_def str_append [symmetric])
  have vue: "sublist (str ''userName: String,'') (generateComponentCode rt node Vue)"
    using vue_declares [OF mem, of rt "toPascalCase rt (name node)" node]
    by (simp add: generateComponentCode_def Let_def str_append [symmetric])
  have svelte: "sublist (str ''export let userName;'') (generateComponentCode rt node Svelte)"
    using svelte_declares [OF mem, of rt "toPascalCase rt (name node)" node]
    by (simp add: generateComponentCode_def Let_def str_append [symmetric])
  from mem dist order single react vue svelte show ?thesis by blast
qed

lemmas render_defs = generateComponentCode_def generateReactComponent_def generateVueComponent_def
  generateSvelteComponent_def generateReactChildren_def generateVueChildren_def
  generateSvelteChildren_def react_child_def vue_child_def svelte_child_def text_or_name_def
  own_text_def dimensions_style_def shown_def

lemmas extract_defs = extractPropsFromNode_def add_child_props_def match_placeholders_def
  match_here_def slice_2_minus_1_def set_add_def

theorem placeholder_becomes_input_witness:
  "type (text_node (str ''label'') (str ''Hello, ${userName}'')) = str ''TEXT''
   \<and> textContent (text_node (str ''label'') (str ''Hello, ${userName}'')) = Some (str ''Hello, ${userName}'')
   \<and> children welcome_frame
       = Some [text_node (str ''label'') (str ''Hello, ${userName}''),
               text_node (str ''line'') (str ''${greeting}, ${userName} ${title}'')]
   \<and> text_node (str ''label'') (str ''Hello, ${userName}'')
       \<in> set [text_node (str ''label'') (str ''Hello, ${userName}''),
              text_node (str ''line'') (str ''${greeting}, ${userName} ${title}'')]
   \<and> extractPropsFromNode welcome_frame = [str ''userName'', str ''greeting'', str ''title'']
   \<and> sublist (str ''userName: String,'') (generateComponentCode ascii_runtime welcome_frame Vue)"
proof -
  let ?c = "text_node (str ''label'') (str ''Hello, ${userName}'')"
  let ?d = "text_node (str ''line'') (str ''${greeting}, ${userName} ${title}'')"
  have h1: "type ?c = str ''TEXT''" by (simp add: text_node_def)
  have h2: "textContent ?c = Some (str ''Hello, ${userName}'')" by (simp add: text_node_def)
  have h3: "children welcome_frame = Some [?c, ?d]" by (simp add: welcome_frame_def frame_with_def)
  have h4: "?c \<in> set [?c, ?d]" by simp
  have names: "first_occurrences (concat (map placeholder_names [?c, ?d]))
               = [str ''userName'', str ''greeting'', str ''title'']"
    by (simp add: placeholder_names_def text_node_def match_here_def slice_2_minus_1_def
        str_def char_class_defs)
  note applied = placeholder_becomes_input [OF h1 h2 h3 h4, of ascii_runtime]
  have "extractPropsFromNode welcome_frame = [str ''userName'', str ''greeting'', str ''title'']"
    using applied names by simp
  moreover have "sublist (str ''userName: String,'') (generateComponentCode ascii_runtime welcome_frame Vue)"
    using applied by blast
  ultimately show ?thesis
    using h1 h2 h3 h4 by blast
qed

text \<open>
  C2 as stated fails for two of the three renderers. What Svelte emits for the frame
  with the placeholder names no type at all, neither string nor number: its input is
  untyped. What Vue emits names no number type: its input is a String.
\<close>

theorem inputs_not_number_typed_counterexample:
  "extractPropsFromNode greeting = [str ''userName'']
   \<and> \<not> names_a_type (generateComponentCode ascii_runtime greeting Svelte)
   \<and> \<not> names_number_type (generateComponentCode ascii_runtime greeting Vue)"
  by (simp add: names_a_type_def names_number_type_def greeting_def fixture_defs render_defs
      extract_defs identity_defs char_class_defs apostrophe_def newline_def sublist_Cons_right)

section \<open>File names\<close>

lemma keys_foldl_add_component:
  "fst ` set (foldl (add_component rt fw) acc ns)
   = fst ` set acc \<union> (\<lambda>n. sanitizeFileName rt (name n) @ str ''.tsx'') ` set ns"
  by (induction ns arbitrary: acc) (auto simp: add_component_def Let_def dom_update)

lemma component_keys:
  "fst ` set (components (convertFigmaToCode rt figmaFile fw))
   = (\<lambda>n. sanitizeFileName rt (name n) @ str ''.tsx'') ` set (filter valid_node (nodes figmaFile))"
  by (simp add: convertFigmaToCode_def Let_def keys_foldl_add_component)

text \<open>
  C4, as the code has it. The entry point of the converter names every component file
  \<open>{fileSlug}.tsx\<close>, whatever the framework; it has no \<open>typescript\<close> flag.
  \<open>generateComponent\<close> of the class names the file after the display name, with
  an extension set by the framework: \<open>tsx\<close> or \<open>jsx\<close> for React, after the
  \<open>typescript\<close> flag, \<open>vue\<close> for Vue and \<open>svelte\<close> for Svelte.
\<close>

theorem file_names:
  "fst ` set (components (convertFigmaToCode rt figmaFile fw))
     = (\<lambda>n. sanitizeFileName rt (name n) @ str ''.tsx'') ` set (filter valid_node (nodes figmaFile))
   \<and> generateComponent_filename rt config node
     = toPascalCase_index rt (sanitizeName (name_i node)) @ str ''.''
       @ (case framework config of
            React \<Rightarrow> if typescript config then str ''tsx'' else str ''jsx''
          | Vue \<Rightarrow> str ''vue''
          | Svelte \<Rightarrow> str ''svelte'')"
  by (simp add: component_keys generateComponent_filename_def component_extension_def
      extractProps_def Let_def)

text \<open>
  C4 as stated fails: for the same node the converter gives the file name
  \<open>button.tsx\<close> under each of the three frameworks.
\<close>

theorem same_extension_counterexample:
  "map fst (components (convertFigmaToCode ascii_runtime (file_of [bare_node (str ''Button'') (str ''FRAME'')]) React))
     = [str ''button.tsx'']
   \<and> map fst (components (convertFigmaToCode ascii_runtime (file_of [bare_node (str ''Button'') (str ''FRAME'')]) Vue))
     = [str ''button.tsx'']
   \<and> map fst (components (convertFigmaToCode ascii_runtime (file_of [bare_node (str ''Button'') (str ''FRAME'')]) Svelte))
     = [str ''button.tsx'']"
  by (simp add: convertFigmaToCode_def add_component_def Let_def file_of_def bare_node_def
      valid_node_def identity_defs char_class_defs)

section \<open>The background colour\<close>

lemma agrees_on_ascii_ascii_runtime: "agrees_on_ascii ascii_runtime"
  by (simp add: agrees_on_ascii_def ascii_runtime_def)

lemma prints_hex_bytes_ascii_runtime: "prints_hex_bytes ascii_runtime"
  by (simp add: prints_hex_bytes_def ascii_runtime_def)

subsection \<open>Rounding to a double keeps integer bounds\<close>

lemma halvings_le: "q < 2 ^ Suc k \<Longrightarrow> halvings q \<le> k"
proof (induction k arbitrary: q)
  case 0
  then show ?case by (subst halvings.simps) simp
next
  case (Suc k)
  then have "q / 2 < 2 ^ Suc k" by simp
  then have "halvings (q / 2) \<le> k" by (rule Suc.IH)
  then show ?case by (subst halvings.simps) simp
qed

lemma exponent_le: "\<bar>q\<bar> < 2 ^ Suc k \<Longrightarrow> exponent q \<le> int k"
  using halvings_le [of "\<bar>q\<bar>" k] by (simp add: exponent_def)

lemma round_half_even_le: "x \<le> of_int n \<Longrightarrow> round_half_even x \<le> n"
  unfolding round_half_even_def Let_def by (auto simp: floor_le_iff)

lemma round_half_even_ge: "of_int n \<le> x \<Longrightarrow> n \<le> round_half_even x"
proof -
  assume "of_int n \<le> x"
  then have "n \<le> \<lfloor>x\<rfloor>" by (simp add: le_floor_iff)
  then show ?thesis by (simp add: round_half_even_def Let_def)
qed

lemma ulp_pos: "0 < ulp q"
  by (simp add: ulp_def)

text \<open>
  An integer of a magnitude below \<open>2\<^sup>5\<^sup>3\<close> is a double, so rounding does not
  carry a number across it.
\<close>

lemma round_double_bounded:
  assumes "of_int lo \<le> x" and "x \<le> of_int hi" and "\<bar>x\<bar> < 2 ^ 53"
    and "\<bar>lo\<bar> < 2 ^ 1024" and "\<bar>hi\<bar> < 2 ^ 1024"
  shows "\<exists>p. round_double x = Some p \<and> of_int lo \<le> p \<and> p \<le> of_int hi"
proof -
  let ?k = "52 - max (exponent x) (- 1022)"
  let ?m = "round_half_even (x / ulp x)"
  have "exponent x \<le> 52"
    using exponent_le [of x 52] assms(3) by simp
  then have k: "0 \<le> ?k" by simp
  have "max (exponent x) (- 1022) - 52 = - ?k" by simp
  then have "ulp x = 2 powi (- ?k)" by (simp only: ulp_def)
  also have "\<dots> = inverse (2 powi ?k)" by (rule power_int_minus)
  also have "\<dots> = inverse (2 ^ nat ?k)" using k by (simp only: power_int_nonneg_exp)
  finally have u: "ulp x = 1 / 2 ^ nat ?k" by (simp add: inverse_eq_divide)
  have "x / ulp x \<le> of_int (hi * 2 ^ nat ?k)"
    using assms(2) by (simp add: u)
  then have "?m \<le> hi * 2 ^ nat ?k" by (rule round_half_even_le)
  then have "of_int ?m * ulp x \<le> of_int (hi * 2 ^ nat ?k) * ulp x"
    using ulp_pos [of x] by (simp only: mult_le_cancel_right_pos of_int_le_iff)
  then have d_hi: "of_int ?m * ulp x \<le> of_int hi" by (simp add: u)
  have "of_int (lo * 2 ^ nat ?k) \<le> x / ulp x"
    using assms(1) by (simp add: u)
  then have "lo * 2 ^ nat ?k \<le> ?m" by (rule round_half_even_ge)
  then have "of_int (lo * 2 ^ nat ?k) * ulp x \<le> of_int ?m * ulp x"
    using ulp_pos [of x] by (simp only: mult_le_cancel_right_pos of_int_le_iff)
  then have d_lo: "of_int lo \<le> of_int ?m * ulp x" by (simp add: u)
  have "(of_int hi :: rat) < 2 ^ 1024" and "- (2 ^ 1024) < (of_int lo :: rat)"
    using assms(4,5) by (simp_all add: abs_less_iff)
  then have "\<bar>of_int ?m * ulp x\<bar> < 2 ^ 1024"
    using d_hi d_lo by (simp add: abs_less_iff)
  then show ?thesis
    using d_hi d_lo by (simp add: round_double_def Let_def)
qed

lemma channel_product:
  assumes "in_unit_interval q"
  shows "\<exists>p. round_double (q * 255) = Some p \<and> 0 \<le> p \<and> p \<le> 255"
proof -
  have "of_int 0 \<le> q * 255" and "q * 255 \<le> of_int 255" and "\<bar>q * 255\<bar> < 2 ^ 53"
    using assms by (simp_all add: in_unit_interval_def abs_less_iff)
  then show ?thesis
    using round_double_bounded [of 0 "q * 255" 255] by simp
qed

lemma Math_round_byte: "0 \<le> p \<Longrightarrow> p \<le> 255 \<Longrightarrow> 0 \<le> Math_round p \<and> Math_round p \<le> 255"
  unfolding Math_round_def by (simp add: floor_le_iff)

lemma channel_byte_le:
  assumes "in_unit_interval q"
  shows "channel_byte q \<le> 255"
proof -
  obtain p where p: "round_double (q * 255) = Some p" "0 \<le> p" "p \<le> 255"
    using channel_product [OF assms] by blast
  then have "Math_round p \<le> 255"
    using Math_round_byte [of p] by simp
  then show ?thesis by (simp add: channel_byte_def p(1))
qed

subsection \<open>Two digits for each channel\<close>

lemma hex_digits_byte:
  "n < 256 \<Longrightarrow> hex_digits n = (if n < 16 then [hex_digit n] else [hex_digit (n div 16), hex_digit (n mod 16)])"
  by (subst hex_digits.simps, subst hex_digits.simps) (simp add: div_less_iff_less_mult [symmetric])

lemma toHex_channel:
  assumes "in_unit_interval q" and "prints_hex_bytes rt"
  shows "toHex rt q = [hex_digit (channel_byte q div 16), hex_digit (channel_byte q mod 16)]"
proof -
  obtain p where p: "round_double (q * 255) = Some p" "0 \<le> p" "p \<le> 255"
    using channel_product [OF assms(1)] by blast
  let ?k = "Math_round p"
  have k: "0 \<le> ?k" "?k \<le> 255"
    using Math_round_byte [OF p(2,3)] by simp_all
  then have "numberToString16 rt ?k = hexadecimal ?k"
    using assms(2) by (simp add: prints_hex_bytes_def)
  also have "\<dots> = hex_digits (nat ?k)"
    using k by (simp add: hexadecimal_def)
  finally have "numberToString16 rt ?k = hex_digits (nat ?k)" .
  moreover have "nat ?k < 256" using k by simp
  moreover have "channel_byte q = nat ?k" by (simp add: channel_byte_def p(1))
  ultimately show ?thesis
    by (simp add: toHex_def p(1) Let_def hex_digits_byte hex_digit_def str_def)
qed

lemma upper_hex_pair:
  "n < 256 \<Longrightarrow> ascii_upper [hex_digit (n div 16), hex_digit (n mod 16)] = hex_pair n"
proof -
  assume "n < 256"
  then have "n div 16 < 16" by simp
  moreover have "n mod 16 < 16" by simp
  moreover have "ascii_upper [hex_digit a, hex_digit b] = [upper_hex_digit a, upper_hex_digit b]"
    if "a < 16" "b < 16" for a b
    using that by (auto simp: ascii_upper_def hex_digit_def upper_hex_digit_def is_lower_def)
  ultimately show ?thesis by (simp add: hex_pair_def)
qed

lemma hex_digit_ascii: "d < 16 \<Longrightarrow> hex_digit d < 128"
  by (simp add: hex_digit_def)

lemma ascii_upper_append: "ascii_upper (a @ b) = ascii_upper a @ ascii_upper b"
  by (simp add: ascii_upper_def)

lemma colorToHex_solid:
  assumes "agrees_on_ascii rt" and "prints_hex_bytes rt"
    and "type_paint fill = str ''SOLID''" and "color fill = Some c"
    and "in_unit_interval (r_ch c)" and "in_unit_interval (g_ch c)" and "in_unit_interval (b_ch c)"
  shows "colorToHex rt fill
         = str ''#'' @ hex_pair (channel_byte (r_ch c)) @ hex_pair (channel_byte (g_ch c))
           @ hex_pair (channel_byte (b_ch c))"
proof -
  let ?h = "\<lambda>q. [hex_digit (channel_byte q div 16), hex_digit (channel_byte q mod 16)]"
  have byte: "channel_byte q < 256" if "in_unit_interval q" for q
    using channel_byte_le [OF that] by simp
  have asc: "is_ascii (?h q)" if "in_unit_interval q" for q
    using byte [OF that] by (simp add: is_ascii_def hex_digit_ascii)
  let ?s = "str ''#'' @ ?h (r_ch c) @ ?h (g_ch c) @ ?h (b_ch c)"
  have "is_ascii ?s"
    using asc [OF assms(5)] asc [OF assms(6)] asc [OF assms(7)]
    by (simp add: is_ascii_def str_def)
  then have "toUpperCase rt ?s = ascii_upper ?s"
    using assms(1) unfolding agrees_on_ascii_def by blast
  also have "\<dots> = str ''#'' @ hex_pair (channel_byte (r_ch c)) @ hex_pair (channel_byte (g_ch c))
                  @ hex_pair (channel_byte (b_ch c))"
    unfolding ascii_upper_append
    by (simp only: upper_hex_pair [OF byte [OF assms(5)]] upper_hex_pair [OF byte [OF assms(6)]]
        upper_hex_pair [OF byte [OF assms(7)]])
      (simp add: ascii_upper_def str_def is_lower_def)
  finally show ?thesis
    by (simp add: colorToHex_def assms(3,4) toHex_channel [OF assms(5,2)] toHex_channel [OF assms(6,2)]
        toHex_channel [OF assms(7,2)])
qed

text \<open>The double products of the sample channels are exact.\<close>

lemma sample_products:
  "round_double (255 / 2) = Some (255 / 2)" "round_double (255 / 4) = Some (255 / 4)"
  "round_double 255 = Some 255" "round_double 510 = Some 510" "round_double 0 = Some 0"
  "round_double (- 255) = Some (- 255)"
  by (simp_all add: round_double_def ulp_def exponent_def halvings.simps doublings.simps
      round_half_even_def Let_def floor_eq_iff)

lemma sample_rounds:
  "Math_round (255 / 2) = 128" "Math_round (255 / 4) = 64" "Math_round 255 = 255"
  "Math_round 510 = 510" "Math_round 0 = 0" "Math_round (- 255) = - 255"
  by (simp_all add: Math_round_def floor_eq_iff)

lemmas props_defs = extractProps_def colorToHex_def sanitizeName_def or_default_def has_text_def
  tailwind_classes_def generateTailwindClasses_def font_size_class_def

text \<open>
  C3, as the code has it. Without fills, or with an empty list of them, the record has
  no background. With a first fill that is not SOLID or has no colour, the background
  is the default \<open>#000000\<close>. With a first fill that is SOLID and has a colour whose
  channels are within \<open>[0, 1]\<close>, it is \<open>#\<close> and, for each of red, green and
  blue, the two upper-case hexadecimal digits of \<open>round(channel * 255)\<close>, the
  product being the product of doubles; that value is at most 255. (On a runtime that
  converts the case of ASCII letter by letter and prints the integers from 0 to 255 in
  base 16 as their numerals, as every JavaScript runtime does.)
\<close>

theorem background_color:
  "(fills_i node = None \<or> fills_i node = Some [] \<longrightarrow>
      backgroundColor (extractProps rt node) = None)
   \<and> (fills_i node = Some (fill # others) \<and> (type_paint fill \<noteq> str ''SOLID'' \<or> color fill = None) \<longrightarrow>
      backgroundColor (extractProps rt node) = Some (str ''#000000''))
   \<and> (fills_i node = Some (fill # others) \<and> type_paint fill = str ''SOLID'' \<and> color fill = Some c
        \<and> in_unit_interval (r_ch c) \<and> in_unit_interval (g_ch c) \<and> in_unit_interval (b_ch c)
        \<and> agrees_on_ascii rt \<and> prints_hex_bytes rt \<longrightarrow>
      backgroundColor (extractProps rt node)
        = Some (str ''#'' @ hex_pair (channel_byte (r_ch c)) @ hex_pair (channel_byte (g_ch c))
                @ hex_pair (channel_byte (b_ch c)))
      \<and> channel_byte (r_ch c) \<le> 255 \<and> channel_byte (g_ch c) \<le> 255 \<and> channel_byte (b_ch c) \<le> 255)"
proof (intro conjI impI)
  assume "fills_i node = None \<or> fills_i node = Some []"
  then show "backgroundColor (extractProps rt node) = None"
    by (auto simp: extractProps_def)
next
  assume "fills_i node = Some (fill # others) \<and> (type_paint fill \<noteq> str ''SOLID'' \<or> color fill = None)"
  then show "backgroundColor (extractProps rt node) = Some (str ''#000000'')"
    by (auto simp: extractProps_def colorToHex_def split: option.splits)
next
  assume a: "fills_i node = Some (fill # others) \<and> type_paint fill = str ''SOLID'' \<and> color fill = Some c
        \<and> in_unit_interval (r_ch c) \<and> in_unit_interval (g_ch c) \<and> in_unit_interval (b_ch c)
        \<and> agrees_on_ascii rt \<and> prints_hex_bytes rt"
  then show "backgroundColor (extractProps rt node)
        = Some (str ''#'' @ hex_pair (channel_byte (r_ch c)) @ hex_pair (channel_byte (g_ch c))
                @ hex_pair (channel_byte (b_ch c)))"
    using colorToHex_solid [of rt fill c] by (simp add: extractProps_def)
  show "channel_byte (r_ch c) \<le> 255"
    using a channel_byte_le [of "r_ch c"] by simp
  show "channel_byte (g_ch c) \<le> 255"
    using a channel_byte_le [of "g_ch c"] by simp
  show "channel_byte (b_ch c) \<le> 255"
    using a channel_byte_le [of "b_ch c"] by simp
qed

text \<open>
  C3 as stated fails. A first fill that is a gradient, or a SOLID fill without a colour,
  gives the background \<open>#000000\<close>, not an absent one. And no channel is clamped: a
  SOLID fill with the channels 2, 2 and 2 gives \<open>#1FE1FE1FE\<close>, nine digits, where
  the clamped triplet is \<open>#FFFFFF\<close>.
\<close>

theorem background_default_counterexample:
  "fills_i (with_fills [\<lparr>type_paint = str ''GRADIENT_LINEAR'', color = None\<rparr>])
     = Some [\<lparr>type_paint = str ''GRADIENT_LINEAR'', color = None\<rparr>]
   \<and> backgroundColor (extractProps ascii_runtime
        (with_fills [\<lparr>type_paint = str ''GRADIENT_LINEAR'', color = None\<rparr>])) = Some (str ''#000000'')
   \<and> backgroundColor (extractProps ascii_runtime
        (with_fills [\<lparr>type_paint = str ''SOLID'', color = None\<rparr>])) = Some (str ''#000000'')
   \<and> backgroundColor (extractProps ascii_runtime (with_fills [solid 2 2 2])) = Some (str ''#1FE1FE1FE'')"
  by (simp add: with_fills_def solid_def extractProps_def colorToHex_def toHex_def sample_products
      sample_rounds ascii_runtime_def hexadecimal_def hex_digits.simps hex_digit_def ascii_upper_def
      is_lower_def str_def)

theorem background_color_witness:
  "fills_i (with_fills []) = Some []
   \<and> backgroundColor (extractProps ascii_runtime (with_fills [])) = None
   \<and> fills_i (with_fills [\<lparr>type_paint = str ''IMAGE'', color = None\<rparr>])
       = Some (\<lparr>type_paint = str ''IMAGE'', color = None\<rparr> # [])
   \<and> type_paint \<lparr>type_paint = str ''IMAGE'', color = None\<rparr> \<noteq> str ''SOLID''
   \<and> backgroundColor (extractProps ascii_runtime (with_fills [\<lparr>type_paint = str ''IMAGE'', color = None\<rparr>]))
       = Some (str ''#000000'')
   \<and> fills_i (with_fills [solid (1 / 2) (1 / 4) 1]) = Some (solid (1 / 2) (1 / 4) 1 # [])
   \<and> type_paint (solid (1 / 2) (1 / 4) 1) = str ''SOLID''
   \<and> color (solid (1 / 2) (1 / 4) 1) = Some \<lparr>r_ch = 1 / 2, g_ch = 1 / 4, b_ch = 1, a_ch = 1\<rparr>
   \<and> in_unit_interval (1 / 2) \<and> in_unit_interval (1 / 4) \<and> in_unit_interval 1
   \<and> agrees_on_ascii ascii_runtime \<and> prints_hex_bytes ascii_runtime
   \<and> backgroundColor (extractProps ascii_runtime (with_fills [solid (1 / 2) (1 / 4) 1])) = Some (str ''#8040FF'')"
proof -
  let ?img = "\<lparr>type_paint = str ''IMAGE'', color = None\<rparr>"
  let ?c = "\<lparr>r_ch = 1 / 2, g_ch = 1 / 4, b_ch = 1, a_ch = 1 :: number\<rparr>"
  let ?solid = "solid (1 / 2) (1 / 4) 1"
  have a1: "fills_i (with_fills []) = Some []"
    by (simp add: with_fills_def)
  have a2: "fills_i (with_fills [?img]) = Some (?img # [])"
    by (simp add: with_fills_def)
  have a3: "type_paint ?img \<noteq> str ''SOLID''"
    by (simp add: str_def)
  have a4: "fills_i (with_fills [?solid]) = Some (?solid # [])"
    by (simp add: with_fills_def)
  have a5: "type_paint ?solid = str ''SOLID''" "color ?solid = Some ?c"
    by (simp_all add: solid_def)
  have a6: "in_unit_interval (1 / 2)" "in_unit_interval (1 / 4)" "in_unit_interval 1"
    by (simp_all add: in_unit_interval_def)
  have a7: "agrees_on_ascii ascii_runtime" "prints_hex_bytes ascii_runtime"
    by (rule agrees_on_ascii_ascii_runtime, rule prints_hex_bytes_ascii_runtime)
  have bytes: "channel_byte (1 / 2) = 128" "channel_byte (1 / 4) = 64" "channel_byte 1 = 255"
    by (simp_all add: channel_byte_def sample_products sample_rounds)
  have hex: "str ''#'' @ hex_pair 128 @ hex_pair 64 @ hex_pair 255 = str ''#8040FF''"
    by (simp add: hex_pair_def upper_hex_digit_def str_def)
  have b1: "backgroundColor (extractProps ascii_runtime (with_fills [])) = None"
    using background_color [of "with_fills []" ascii_runtime] a1 by blast
  have b2: "backgroundColor (extractProps ascii_runtime (with_fills [?img])) = Some (str ''#000000'')"
    using background_color [of "with_fills [?img]" ascii_runtime ?img "[]"] a2 a3 by blast
  have "backgroundColor (extractProps ascii_runtime (with_fills [?solid]))
        = Some (str ''#'' @ hex_pair (channel_byte (r_ch ?c)) @ hex_pair (channel_byte (g_ch ?c))
                @ hex_pair (channel_byte (b_ch ?c)))"
    using background_color [of "with_fills [?solid]" ascii_runtime ?solid "[]" ?c] a4 a5 a6 a7 by simp
  then have b3: "backgroundColor (extractProps ascii_runtime (with_fills [?solid])) = Some (str ''#8040FF'')"
    by (simp add: bytes hex)
  from a1 a2 a3 a4 a5 a6 a7 b1 b2 b3 show ?thesis by blast
qed

section \<open>The font size utility\<close>

lemma prints_sign_or_digit_ascii_runtime: "prints_sign_or_digit ascii_runtime"
proof -
  have "digits n \<noteq> [] \<and> is_digit (hd (digits n))" for n
  proof (induction n rule: digits.induct)
    case (1 n)
    show ?case
    proof (cases "n < 10")
      case True
      then show ?thesis by (subst digits.simps, subst digits.simps) (simp add: is_digit_def)
    next
      case False
      then show ?thesis using 1 by (subst digits.simps, subst (2) digits.simps) simp
    qed
  qed
  then show ?thesis
    by (simp add: prints_sign_or_digit_def ascii_runtime_def decimal_def str_def)
qed

lemma not_bracket:
  assumes "prints_sign_or_digit rt"
  shows "numberToString rt q \<noteq> 91 # s"
proof
  assume "numberToString rt q = 91 # s"
  moreover have "hd (numberToString rt q) = 45 \<or> is_digit (hd (numberToString rt q))"
    using assms by (simp add: prints_sign_or_digit_def)
  ultimately show False by (simp add: is_digit_def)
qed

lemma Math_round_quarter: "(16 < Math_round (fs / 4)) = (66 \<le> fs)"
  by (auto simp: Math_round_def less_floor_iff)

text \<open>
  C6, as the code has it. For a record with a font size other than zero, the font size
  utility is the last class, and the class string, the classes joined by spaces,
  contains it. It is \<open>text-[{fontSize}px]\<close> exactly when
  \<open>round(fontSize / 4)\<close> is above 16, that is from a font size of 66 on, and
  \<open>text-{round(fontSize / 4)}\<close> otherwise, each number as the runtime prints it
  (for "exactly when": with a minus sign or a digit first, as every runtime does).
\<close>

theorem font_size_utility:
  assumes "fontSize_p props = Some fs" and "fs \<noteq> 0"
  shows "last (tailwind_classes rt props)
         = (if Math_round (fs / 4) > 16 then str ''text-['' @ numberToString rt fs @ str ''px]''
            else str ''text-'' @ numberToString rt (of_int (Math_round (fs / 4))))
       \<and> sublist (if Math_round (fs / 4) > 16 then str ''text-['' @ numberToString rt fs @ str ''px]''
                   else str ''text-'' @ numberToString rt (of_int (Math_round (fs / 4))))
            (generateTailwindClasses rt props)
       \<and> (prints_sign_or_digit rt \<longrightarrow>
            (str ''text-['' @ numberToString rt fs @ str ''px]'' \<in> set (tailwind_classes rt props))
            = (Math_round (fs / 4) > 16))
       \<and> ((Math_round (fs / 4) > 16) = (66 \<le> fs))
       \<and> generateTailwindClasses rt props = join (str '' '') (tailwind_classes rt props)"
proof (intro conjI impI)
  let ?u = "if Math_round (fs / 4) > 16 then str ''text-['' @ numberToString rt fs @ str ''px]''
            else str ''text-'' @ numberToString rt (of_int (Math_round (fs / 4)))"
  have cls: "tailwind_classes rt props \<noteq> []"
    using assms by (simp add: tailwind_classes_def)
  show l: "last (tailwind_classes rt props) = ?u"
    using assms by (simp add: tailwind_classes_def font_size_class_def Let_def str_def)
  have "?u \<in> set (tailwind_classes rt props)"
    using last_in_set [OF cls] unfolding l .
  then show "sublist ?u (generateTailwindClasses rt props)"
    unfolding generateTailwindClasses_def by (rule sublist_join)
  show "(str ''text-['' @ numberToString rt fs @ str ''px]'' \<in> set (tailwind_classes rt props))
            = (Math_round (fs / 4) > 16)" if "prints_sign_or_digit rt"
    using assms not_bracket [OF that] not_bracket [OF that, THEN not_sym]
    by (auto simp: tailwind_classes_def font_size_class_def Let_def str_def split: option.splits)
  show "(Math_round (fs / 4) > 16) = (66 \<le> fs)"
    by (rule Math_round_quarter)
  show "generateTailwindClasses rt props = join (str '' '') (tailwind_classes rt props)"
    by (simp add: generateTailwindClasses_def)
qed

theorem font_size_utility_witness:
  "fontSize_p (extractProps ascii_runtime (text_layer (str ''Title'') (Some 72))) = Some 72
   \<and> (72 :: number) \<noteq> 0
   \<and> prints_sign_or_digit ascii_runtime
   \<and> last (tailwind_classes ascii_runtime (extractProps ascii_runtime (text_layer (str ''Title'') (Some 72))))
       = str ''text-[72px]''
   \<and> str ''text-[72px]''
       \<in> set (tailwind_classes ascii_runtime (extractProps ascii_runtime (text_layer (str ''Title'') (Some 72))))
   \<and> generateTailwindClasses ascii_runtime (extractProps ascii_runtime (text_layer (str ''Title'') (Some 72)))
       = str ''text-[72px]''"
proof -
  let ?p = "extractProps ascii_runtime (text_layer (str ''Title'') (Some 72))"
  have h1: "fontSize_p ?p = Some 72"
    by (simp add: extractProps_def text_layer_def has_text_def or_default_def str_def)
  have h2: "(72 :: number) \<noteq> 0" by simp
  have h3: "prints_sign_or_digit ascii_runtime"
    by (rule prints_sign_or_digit_ascii_runtime)
  have big: "Math_round (72 / 4) > 16"
    using Math_round_quarter [of 72] by simp
  have num: "str ''text-['' @ numberToString ascii_runtime 72 @ str ''px]'' = str ''text-[72px]''"
    by (simp add: ascii_runtime_def decimal_def digits.simps str_def)
  have cls: "tailwind_classes ascii_runtime ?p = [str ''text-[72px]'']"
    using big num
    by (simp add: tailwind_classes_def font_size_class_def extractProps_def text_layer_def
        has_text_def or_default_def Let_def str_def)
  note applied = font_size_utility [OF h1 h2, of ascii_runtime]
  have "last (tailwind_classes ascii_runtime ?p) = str ''text-[72px]''"
    using applied big num by simp
  moreover have "str ''text-[72px]'' \<in> set (tailwind_classes ascii_runtime ?p)"
    using applied h3 big num by simp
  moreover have "generateTailwindClasses ascii_runtime ?p = str ''text-[72px]''"
    using applied cls by simp
  ultimately show ?thesis using h1 h2 h3 by blast
qed

text \<open>
  C6 as stated fails: a font size of 20 is above 16, and the class is \<open>text-5\<close>.
\<close>

theorem font_size_threshold_counterexample:
  "(16 :: number) < 20
   \<and> fontSize_p (extractProps ascii_runtime (text_layer (str ''Hi'') (Some 20))) = Some 20
   \<and> generateTailwindClasses ascii_runtime (extractProps ascii_runtime (text_layer (str ''Hi'') (Some 20)))
       = str ''text-5''"
proof -
  have r: "Math_round 5 = 5"
    by (simp add: Math_round_def floor_eq_iff)
  show ?thesis
    by (simp add: props_defs text_layer_def Let_def r ascii_runtime_def decimal_def digits.simps str_def)
qed

section \<open>Failure and absent attributes\<close>

subsection \<open>On values of the declared types the converter is the typed model\<close>

lemma and_then_Inr [simp]: "and_then (Inr v) f = f v"
  by (simp add: and_then_def)

lemma and_then_Inl [simp]: "and_then (Inl e) f = Inl e"
  by (simp add: and_then_def)

lemma map_array_encoded:
  "(\<And>x. f (e x) = Inr (g x)) \<Longrightarrow> map_array f (map e xs) = Inr (map g xs)"
  by (induction xs) simp_all

lemma filter_array_encoded:
  "(\<And>x. p (e x) = Inr (q x)) \<Longrightarrow> filter_array p (map e xs) = Inr (map e (filter q xs))"
  by (induction xs) simp_all

lemma for_each_encoded:
  "(\<And>acc x. f acc (e x) = Inr (g acc x)) \<Longrightarrow> for_each f acc (map e xs) = Inr (foldl g acc xs)"
  by (induction xs arbitrary: acc) simp_all

lemma optional_simps [simp]:
  "optional k enc None = []" "optional k enc (Some x) = [(k, enc x)]"
  by (simp_all add: optional_def)

lemma map_of_optional:
  "map_of (optional k enc v) k' = (if k' = k then map_option enc v else None)"
  by (cases v) simp_all

lemma property_name: "property (encode_node n) (str ''name'') = Inr (JString (name n))"
  by (cases n) (simp add: str_def)

lemma property_type: "property (encode_node n) (str ''type'') = Inr (JString (type n))"
  by (cases n) (simp add: str_def)

lemma property_visible:
  "property (encode_node n) (str ''visible'')
   = Inr (case visible n of None \<Rightarrow> JUndefined | Some b \<Rightarrow> JBool b)"
  by (cases n) (simp add: str_def map_of_optional map_add_def split: option.splits)

lemma property_textContent:
  "property (encode_node n) (str ''textContent'')
   = Inr (case textContent n of None \<Rightarrow> JUndefined | Some t \<Rightarrow> JString t)"
  by (cases n) (simp add: str_def map_of_optional map_add_def split: option.splits)

lemma property_absoluteBoundingBox:
  "property (encode_node n) (str ''absoluteBoundingBox'')
   = Inr (case absoluteBoundingBox n of None \<Rightarrow> JUndefined | Some box \<Rightarrow> encode_box box)"
  by (cases n) (simp add: str_def map_of_optional map_add_def split: option.splits)

lemma property_children:
  "property (encode_node n) (str ''children'')
   = Inr (case children n of None \<Rightarrow> JUndefined | Some cs \<Rightarrow> JArray (map encode_node cs))"
  by (cases n) (simp add: str_def map_of_optional map_add_def split: option.splits)


declare encode_node.simps [simp del]

lemma valid_node_encoded: "valid_node_any (encode_node n) = Inr (valid_node n)"
  by (simp add: valid_node_any_def property_visible property_name valid_node_def split: option.splits)

lemma shown_encoded: "shown_any (encode_node c) = Inr (shown c)"
  by (simp add: shown_any_def property_visible shown_def split: option.splits)

lemma add_child_props_encoded: "add_child_props_any props (encode_node c) = Inr (add_child_props props c)"
  by (simp add: add_child_props_any_def add_child_props_def property_type property_textContent
      split: option.splits)

lemma extractPropsFromNode_encoded: "extractPropsFromNode_any (encode_node n) = Inr (extractPropsFromNode n)"
  by (simp add: extractPropsFromNode_any_def extractPropsFromNode_def property_children
      for_each_encoded [of add_child_props_any encode_node add_child_props, OF add_child_props_encoded]
      split: option.splits)

lemma text_or_name_encoded: "text_or_name_any rt (encode_node c) = Inr (text_or_name c)"
  by (simp add: text_or_name_any_def text_or_name_def property_textContent property_name
      split: option.splits)

lemma own_text_encoded: "own_text_any rt (encode_node n) = Inr (own_text n)"
  by (simp add: own_text_any_def own_text_def property_textContent split: option.splits)

lemma react_child_encoded: "react_child_any rt (encode_node c) = Inr (react_child c)"
  by (simp add: react_child_any_def react_child_def property_type property_name text_or_name_encoded)

lemma vue_child_encoded: "vue_child_any rt (encode_node c) = Inr (vue_child c)"
  by (simp add: vue_child_any_def vue_child_def property_type property_name text_or_name_encoded)

lemma svelte_child_encoded: "svelte_child_any rt (encode_node c) = Inr (svelte_child c)"
  by (simp add: svelte_child_any_def svelte_child_def property_type property_name text_or_name_encoded)

lemma generateReactChildren_encoded:
  "generateReactChildren_any rt (encode_node n) = Inr (generateReactChildren n)"
proof (cases "children n")
  case None
  then show ?thesis
    by (simp add: generateReactChildren_any_def generateReactChildren_def property_children own_text_encoded)
next
  case (Some cs)
  show ?thesis
  proof (cases cs)
    case Nil
    then show ?thesis
      using Some
      by (simp add: generateReactChildren_any_def generateReactChildren_def property_children own_text_encoded)
  next
    case (Cons c rest)
    have "filter_array shown_any (map encode_node cs) = Inr (map encode_node (filter shown cs))"
      by (rule filter_array_encoded) (rule shown_encoded)
    moreover have "map_array (react_child_any rt) (map encode_node (filter shown cs))
                   = Inr (map react_child (filter shown cs))"
      by (rule map_array_encoded) (rule react_child_encoded)
    ultimately show ?thesis
      using Some Cons
      by (simp add: generateReactChildren_any_def generateReactChildren_def property_children)
  qed
qed

lemma generateVueChildren_encoded:
  "generateVueChildren_any rt (encode_node n) = Inr (generateVueChildren n)"
proof (cases "children n")
  case None
  then show ?thesis
    by (simp add: generateVueChildren_any_def generateVueChildren_def property_children own_text_encoded)
next
  case (Some cs)
  show ?thesis
  proof (cases cs)
    case Nil
    then show ?thesis
      using Some
      by (simp add: generateVueChildren_any_def generateVueChildren_def property_children own_text_encoded)
  next
    case (Cons c rest)
    have "filter_array shown_any (map encode_node cs) = Inr (map encode_node (filter shown cs))"
      by (rule filter_array_encoded) (rule shown_encoded)
    moreover have "map_array (vue_child_any rt) (map encode_node (filter shown cs))
                   = Inr (map vue_child (filter shown cs))"
      by (rule map_array_encoded) (rule vue_child_encoded)
    ultimately show ?thesis
      using Some Cons
      by (simp add: generateVueChildren_any_def generateVueChildren_def property_children)
  qed
qed

lemma generateSvelteChildren_encoded:
  "generateSvelteChildren_any rt (encode_node n) = Inr (generateSvelteChildren n)"
proof (cases "children n")
  case None
  then show ?thesis
    by (simp add: generateSvelteChildren_any_def generateSvelteChildren_def property_children own_text_encoded)
next
  case (Some cs)
  show ?thesis
  proof (cases cs)
    case Nil
    then show ?thesis
      using Some
      by (simp add: generateSvelteChildren_any_def generateSvelteChildren_def property_children own_text_encoded)
  next
    case (Cons c rest)
    have "filter_array shown_any (map encode_node cs) = Inr (map encode_node (filter shown cs))"
      by (rule filter_array_encoded) (rule shown_encoded)
    moreover have "map_array (svelte_child_any rt) (map encode_node (filter shown cs))
                   = Inr (map svelte_child (filter shown cs))"
      by (rule map_array_encoded) (rule svelte_child_encoded)
    ultimately show ?thesis
      using Some Cons
      by (simp add: generateSvelteChildren_any_def generateSvelteChildren_def property_children)
  qed
qed

lemma dimensions_style_encoded: "dimensions_style_any rt (encode_node n) = Inr (dimensions_style rt n)"
proof (cases "absoluteBoundingBox n")
  case None
  then show ?thesis
    by (simp add: dimensions_style_any_def dimensions_style_def property_absoluteBoundingBox)
next
  case (Some box)
  have "property (encode_box box) (str ''width'') = Inr (JNumber (width box))"
    and "property (encode_box box) (str ''height'') = Inr (JNumber (height box))"
    by (simp_all add: encode_box_def str_def)
  moreover have "truthy (encode_box box)"
    by (simp add: encode_box_def)
  ultimately show ?thesis
    using Some
    by (simp add: dimensions_style_any_def dimensions_style_def property_absoluteBoundingBox round_text_def)
qed

lemma generateReactComponent_encoded:
  "generateReactComponent_any rt nm (encode_node n) props = Inr (generateReactComponent rt nm n props)"
  by (simp add: generateReactComponent_any_def generateReactComponent_def Let_def
      dimensions_style_encoded property_name generateReactChildren_encoded)

lemma generateVueComponent_encoded:
  "generateVueComponent_any rt nm (encode_node n) props = Inr (generateVueComponent rt nm n props)"
  by (simp add: generateVueComponent_any_def generateVueComponent_def Let_def
      dimensions_style_encoded property_name generateVueChildren_encoded)

lemma generateSvelteComponent_encoded:
  "generateSvelteComponent_any rt nm (encode_node n) props = Inr (generateSvelteComponent rt nm n props)"
  by (simp add: generateSvelteComponent_any_def generateSvelteComponent_def Let_def
      dimensions_style_encoded property_name generateSvelteChildren_encoded)

lemma generateComponentCode_encoded:
  "generateComponentCode_any rt (encode_node n) fw = Inr (generateComponentCode rt n fw)"
  by (cases fw)
    (simp_all add: generateComponentCode_any_def generateComponentCode_def Let_def property_name
      toPascalCase_any_def string_receiver_def extractPropsFromNode_encoded
      generateReactComponent_encoded generateVueComponent_encoded generateSvelteComponent_encoded)

lemma export_statement_encoded: "export_statement_any rt (encode_node n) = Inr (export_statement rt n)"
  by (simp add: export_statement_any_def export_statement_def Let_def property_name
      toPascalCase_any_def sanitizeFileName_any_def string_receiver_def)

lemma generateIndexFile_encoded:
  "generateIndexFile_any rt (map encode_node ns) fw = Inr (generateIndexFile rt ns fw)"
proof -
  have "filter_array valid_node_any (map encode_node ns) = Inr (map encode_node (filter valid_node ns))"
    by (rule filter_array_encoded) (rule valid_node_encoded)
  moreover have "map_array (export_statement_any rt) (map encode_node (filter valid_node ns))
                 = Inr (map (export_statement rt) (filter valid_node ns))"
    by (rule map_array_encoded) (rule export_statement_encoded)
  ultimately show ?thesis
    by (simp add: generateIndexFile_any_def generateIndexFile_def Let_def)
qed

lemma add_component_encoded:
  "add_component_any rt fw comps (encode_node n) = Inr (add_component rt fw comps n)"
  by (simp add: add_component_any_def add_component_def Let_def property_name
      sanitizeFileName_any_def string_receiver_def generateComponentCode_encoded)

lemma convertFigmaToCode_encoded:
  "convertFigmaToCode_any rt (encode_file f) fw = Inr (convertFigmaToCode rt f fw)"
proof -
  have nodes: "property (encode_file f) (str ''nodes'') = Inr (JArray (map encode_node (nodes f)))"
    by (simp add: encode_file_def str_def)
  have kept: "filter_array valid_node_any (map encode_node (nodes f))
        = Inr (map encode_node (filter valid_node (nodes f)))"
    by (rule filter_array_encoded) (rule valid_node_encoded)
  have comps: "for_each (add_component_any rt fw) [] (map encode_node (filter valid_node (nodes f)))
        = Inr (foldl (add_component rt fw) [] (filter valid_node (nodes f)))"
    by (rule for_each_encoded) (rule add_component_encoded)
  show ?thesis
    by (simp add: convertFigmaToCode_any_def convertFigmaToCode_def Let_def nodes kept comps
        generateIndexFile_encoded)
qed

subsection \<open>What fails and what does not\<close>

lemma filter_none: "list_all (\<lambda>n. \<not> valid_node n) ns \<Longrightarrow> filter valid_node ns = []"
  by (induction ns) auto

lemma convert_nothing:
  "filter valid_node (nodes figmaFile) = [] \<Longrightarrow>
   convertFigmaToCode rt figmaFile fw = \<lparr>components = [], index = index_header fw @ newline @ newline\<rparr>"
  by (simp add: convertFigmaToCode_def generateIndexFile_def index_header_def Let_def)

lemma convert_nothing_any:
  "filter_array valid_node_any xs = Inr [] \<Longrightarrow>
   convertFigmaToCode_any rt (JObject [(str ''nodes'', JArray xs)]) fw
   = Inr \<lparr>components = [], index = index_header fw @ newline @ newline\<rparr>"
  by (simp add: convertFigmaToCode_any_def generateIndexFile_any_def index_header_def Let_def)

text \<open>
  C9, as the code has it. On a file of the declared types the conversion never throws:
  it returns what the typed model computes. When no node passes the filter (visible not
  false, name not empty) it returns no component and an index that holds the header
  line only, for nodes of any shape; that is not reported as a failure. An absent
  attribute is an absent feature: a node without a bounding box gets an empty inline
  style, and the record that \<open>extractProps\<close> builds for it has no dimensions, without
  fills no background, and without text no text, font size or font weight.
\<close>

theorem conversion_of_declared_types:
  "convertFigmaToCode_any rt (encode_file figmaFile) fw = Inr (convertFigmaToCode rt figmaFile fw)
   \<and> (list_all (\<lambda>n. \<not> valid_node n) (nodes figmaFile) \<longrightarrow>
        convertFigmaToCode_any rt (encode_file figmaFile) fw
        = Inr \<lparr>components = [], index = index_header fw @ newline @ newline\<rparr>)
   \<and> (filter_array valid_node_any xs = Inr [] \<longrightarrow>
        convertFigmaToCode_any rt (JObject [(str ''nodes'', JArray xs)]) fw
        = Inr \<lparr>components = [], index = index_header fw @ newline @ newline\<rparr>)
   \<and> (absoluteBoundingBox n = None \<longrightarrow> dimensions_style rt n = [])
   \<and> (absoluteBoundingBox_i node = None \<longrightarrow> dimensions (extractProps rt node) = None)
   \<and> (fills_i node = None \<longrightarrow> backgroundColor (extractProps rt node) = None)
   \<and> (characters node = None \<longrightarrow>
        text_p (extractProps rt node) = None \<and> fontSize_p (extractProps rt node) = None
        \<and> fontWeight_p (extractProps rt node) = None)"
proof (intro conjI impI)
  show typed: "convertFigmaToCode_any rt (encode_file figmaFile) fw = Inr (convertFigmaToCode rt figmaFile fw)"
    by (rule convertFigmaToCode_encoded)
  show "convertFigmaToCode_any rt (encode_file figmaFile) fw
        = Inr \<lparr>components = [], index = index_header fw @ newline @ newline\<rparr>"
    if "list_all (\<lambda>n. \<not> valid_node n) (nodes figmaFile)"
    unfolding typed using convert_nothing [OF filter_none [OF that]] by simp
  show "convertFigmaToCode_any rt (JObject [(str ''nodes'', JArray xs)]) fw
        = Inr \<lparr>components = [], index = index_header fw @ newline @ newline\<rparr>"
    if "filter_array valid_node_any xs = Inr []"
    using that by (rule convert_nothing_any)
  show "dimensions_style rt n = []" if "absoluteBoundingBox n = None"
    using that by (simp add: dimensions_style_def)
  show "dimensions (extractProps rt node) = None" if "absoluteBoundingBox_i node = None"
    using that by (simp add: extractProps_def)
  show "backgroundColor (extractProps rt node) = None" if "fills_i node = None"
    using that by (simp add: extractProps_def)
  show "text_p (extractProps rt node) = None" if "characters node = None"
    using that by (simp add: extractProps_def has_text_def)
  show "fontSize_p (extractProps rt node) = None" if "characters node = None"
    using that by (simp add: extractProps_def has_text_def)
  show "fontWeight_p (extractProps rt node) = None" if "characters node = None"
    using that by (simp add: extractProps_def has_text_def)
qed

theorem conversion_of_declared_types_witness:
  "list_all (\<lambda>n. \<not> valid_node n) (nodes (file_of [hidden (bare_node (str ''Button'') (str ''FRAME''))]))
   \<and> convertFigmaToCode_any ascii_runtime
        (encode_file (file_of [hidden (bare_node (str ''Button'') (str ''FRAME''))])) Svelte
      = Inr \<lparr>components = [], index = str ''// svelte Components

''\<rparr>
   \<and> filter_array valid_node_any [JString (str ''Button''), JNumber 7] = Inr []
   \<and> convertFigmaToCode_any ascii_runtime
        (JObject [(str ''nodes'', JArray [JString (str ''Button''), JNumber 7])]) Svelte
      = Inr \<lparr>components = [], index = str ''// svelte Components

''\<rparr>
   \<and> absoluteBoundingBox (bare_node (str ''Button'') (str ''FRAME'')) = None
   \<and> dimensions_style ascii_runtime (bare_node (str ''Button'') (str ''FRAME'')) = []
   \<and> absoluteBoundingBox_i bare_layer = None \<and> fills_i bare_layer = None
   \<and> characters bare_layer = None
   \<and> dimensions (extractProps ascii_runtime bare_layer) = None
   \<and> backgroundColor (extractProps ascii_runtime bare_layer) = None
   \<and> fontSize_p (extractProps ascii_runtime bare_layer) = None"
proof -
  let ?f = "file_of [hidden (bare_node (str ''Button'') (str ''FRAME''))]"
  let ?xs = "[JString (str ''Button''), JNumber 7]"
  let ?b = "bare_node (str ''Button'') (str ''FRAME'')"
  have h1: "list_all (\<lambda>n. \<not> valid_node n) (nodes ?f)"
    by (simp add: file_of_def hidden_def bare_node_def valid_node_def)
  have h2: "filter_array valid_node_any ?xs = Inr []"
    by (simp add: valid_node_any_def str_def)
  have h3: "absoluteBoundingBox ?b = None"
    by (simp add: bare_node_def)
  have h4: "absoluteBoundingBox_i bare_layer = None" "fills_i bare_layer = None"
    "characters bare_layer = None"
    by (simp_all add: bare_layer_def)
  have header: "index_header Svelte @ newline @ newline = str ''// svelte Components

''"
    by (simp add: index_header_def framework_name_def newline_def str_def)
  note applied = conversion_of_declared_types [of ascii_runtime ?f Svelte ?xs ?b bare_layer]
  show ?thesis
    using h1 h2 h3 h4 applied unfolding header by blast
qed

text \<open>
  C9 as stated fails, in each of its parts. For a file without nodes, where no node
  qualifies, the conversion does not fail: it returns the empty result. For a node with
  a wrong-shaped attribute it does throw: a name that is the number 42 passes the filter
  and has no \<open>toLowerCase\<close>, children that are the number 3 have no
  \<open>forEach\<close>. And an attribute out of range is not treated as absent: a SOLID fill
  with the red channel -1 gives the background \<open>#-FF0000\<close>.
\<close>

theorem no_missing_input_failure_counterexample:
  "filter valid_node (nodes (file_of [])) = []
   \<and> convertFigmaToCode_any ascii_runtime (encode_file (file_of [])) React
      = Inr \<lparr>components = [], index = str ''// react Components

''\<rparr>
   \<and> convertFigmaToCode_any ascii_runtime file_with_numeric_name React = Inl TypeError
   \<and> convertFigmaToCode_any ascii_runtime file_with_numeric_children React = Inl TypeError
   \<and> backgroundColor (extractProps ascii_runtime (with_fills [solid (- 1) 0 0])) = Some (str ''#-FF0000'')"
proof (intro conjI)
  show "filter valid_node (nodes (file_of [])) = []"
    by (simp add: file_of_def)
  show "convertFigmaToCode_any ascii_runtime (encode_file (file_of [])) React
      = Inr \<lparr>components = [], index = str ''// react Components

''\<rparr>"
    by (simp add: convertFigmaToCode_encoded convertFigmaToCode_def generateIndexFile_def
        file_of_def framework_name_def newline_def str_def)
  show "convertFigmaToCode_any ascii_runtime file_with_numeric_name React = Inl TypeError"
    by (simp add: file_with_numeric_name_def convertFigmaToCode_any_def valid_node_any_def
        add_component_any_def sanitizeFileName_any_def string_receiver_def str_def)
  show "convertFigmaToCode_any ascii_runtime file_with_numeric_children React = Inl TypeError"
    by (simp add: file_with_numeric_children_def convertFigmaToCode_any_def valid_node_any_def
        add_component_any_def sanitizeFileName_any_def string_receiver_def
        generateComponentCode_any_def toPascalCase_any_def extractPropsFromNode_any_def str_def)
  show "backgroundColor (extractProps ascii_runtime (with_fills [solid (- 1) 0 0])) = Some (str ''#-FF0000'')"
    by (simp add: with_fills_def solid_def extractProps_def colorToHex_def toHex_def sample_products
        sample_rounds ascii_runtime_def hexadecimal_def hex_digits.simps hex_digit_def ascii_upper_def
        is_lower_def str_def)
qed

section \<open>Further properties\<close>

text \<open>
  The component map has one entry per file name, and where several nodes share a file
  slug the entry holds the code of the last of them: a later node overwrites an earlier
  one.
\<close>

lemma distinct_keys_foldl:
  "distinct (map fst acc) \<Longrightarrow> distinct (map fst (foldl (add_component rt fw) acc ns))"
  by (induction ns arbitrary: acc) (simp_all add: add_component_def Let_def distinct_update)

lemma map_of_foldl_snoc:
  "map_of (foldl (add_component rt fw) acc (ns @ [n]))
   = (map_of (foldl (add_component rt fw) acc ns))
       (sanitizeFileName rt (name n) @ str ''.tsx'' \<mapsto> generateComponentCode rt n fw)"
  by (simp add: add_component_def Let_def update_conv')

lemma map_of_foldl_other:
  "\<forall>m \<in> set ms. sanitizeFileName rt (name m) \<noteq> sanitizeFileName rt (name n) \<Longrightarrow>
   map_of (foldl (add_component rt fw) acc ms) (sanitizeFileName rt (name n) @ str ''.tsx'')
   = map_of acc (sanitizeFileName rt (name n) @ str ''.tsx'')"
  by (induction ms arbitrary: acc) (auto simp: add_component_def Let_def update_conv')

theorem one_file_per_slug_last_wins:
  "distinct (map fst (components (convertFigmaToCode rt figmaFile fw)))
   \<and> (filter valid_node (nodes figmaFile) = before @ n # after
        \<and> list_all (\<lambda>m. sanitizeFileName rt (name m) \<noteq> sanitizeFileName rt (name n)) after
      \<longrightarrow> map_of (components (convertFigmaToCode rt figmaFile fw))
            (sanitizeFileName rt (name n) @ str ''.tsx'') = Some (generateComponentCode rt n fw))"
proof (intro conjI impI)
  show "distinct (map fst (components (convertFigmaToCode rt figmaFile fw)))"
    by (simp add: convertFigmaToCode_def Let_def distinct_keys_foldl)
next
  assume a: "filter valid_node (nodes figmaFile) = before @ n # after
        \<and> list_all (\<lambda>m. sanitizeFileName rt (name m) \<noteq> sanitizeFileName rt (name n)) after"
  let ?k = "sanitizeFileName rt (name n) @ str ''.tsx''"
  have "foldl (add_component rt fw) [] (before @ n # after)
        = foldl (add_component rt fw) (foldl (add_component rt fw) [] (before @ [n])) after"
    by simp
  then have "map_of (foldl (add_component rt fw) [] (before @ n # after)) ?k
        = map_of (foldl (add_component rt fw) [] (before @ [n])) ?k"
    using a map_of_foldl_other [of after rt n fw] by (simp add: list_all_iff)
  also have "\<dots> = Some (generateComponentCode rt n fw)"
    by (simp only: map_of_foldl_snoc) simp
  finally show "map_of (components (convertFigmaToCode rt figmaFile fw)) ?k
        = Some (generateComponentCode rt n fw)"
    using a by (simp add: convertFigmaToCode_def Let_def)
qed

theorem one_file_per_slug_last_wins_witness:
  "filter valid_node (nodes (file_of [bare_node (str ''Button'') (str ''FRAME''), bare_node (str ''Button!!'') (str ''COMPONENT'')]))
     = [bare_node (str ''Button'') (str ''FRAME'')] @ bare_node (str ''Button!!'') (str ''COMPONENT'') # []
   \<and> sanitizeFileName ascii_runtime (name (bare_node (str ''Button'') (str ''FRAME''))) = str ''button''
   \<and> sanitizeFileName ascii_runtime (name (bare_node (str ''Button!!'') (str ''COMPONENT''))) = str ''button''
   \<and> map_of (components (convertFigmaToCode ascii_runtime
        (file_of [bare_node (str ''Button'') (str ''FRAME''), bare_node (str ''Button!!'') (str ''COMPONENT'')]) React))
        (str ''button.tsx'')
       = Some (generateComponentCode ascii_runtime (bare_node (str ''Button!!'') (str ''COMPONENT'')) React)"
proof -
  let ?b1 = "bare_node (str ''Button'') (str ''FRAME'')"
  let ?b2 = "bare_node (str ''Button!!'') (str ''COMPONENT'')"
  have h1: "filter valid_node (nodes (file_of [?b1, ?b2])) = [?b1] @ ?b2 # []"
    by (simp add: file_of_def valid_node_def bare_node_def str_def)
  have h2: "list_all (\<lambda>m. sanitizeFileName ascii_runtime (name m) \<noteq> sanitizeFileName ascii_runtime (name ?b2)) []"
    by simp
  have s1: "sanitizeFileName ascii_runtime (name ?b1) = str ''button''"
    by (simp add: bare_node_def identity_defs char_class_defs)
  have s2: "sanitizeFileName ascii_runtime (name ?b2) = str ''button''"
    by (simp add: bare_node_def identity_defs char_class_defs)
  have "map_of (components (convertFigmaToCode ascii_runtime (file_of [?b1, ?b2]) React))
          (sanitizeFileName ascii_runtime (name ?b2) @ str ''.tsx'')
        = Some (generateComponentCode ascii_runtime ?b2 React)"
    using one_file_per_slug_last_wins [of ascii_runtime "file_of [?b1, ?b2]" React "[?b1]" ?b2 "[]"] h1 h2
    by blast
  moreover have "sanitizeFileName ascii_runtime (name ?b2) @ str ''.tsx'' = str ''button.tsx''"
    by (simp add: s2) (simp add: str_def)
  ultimately show ?thesis using h1 s1 s2 by simp
qed

text \<open>
  Typography: a node with text and no font size gets the font size 14, with no font
  weight the font weight 400; a node without text gets neither.
\<close>

theorem typography_defaults:
  "(has_text node \<and> fontSize_i node = None \<longrightarrow> fontSize_p (extractProps rt node) = Some 14)
   \<and> (has_text node \<and> fontWeight_i node = None \<longrightarrow> fontWeight_p (extractProps rt node) = Some 400)
   \<and> (\<not> has_text node \<longrightarrow>
        fontSize_p (extractProps rt node) = None \<and> fontWeight_p (extractProps rt node) = None)"
  by (simp add: extractProps_def or_default_def)

theorem typography_defaults_witness:
  "has_text (text_layer (str ''Hi'') None)
   \<and> fontSize_i (text_layer (str ''Hi'') None) = None
   \<and> fontWeight_i (text_layer (str ''Hi'') None) = None
   \<and> fontSize_p (extractProps ascii_runtime (text_layer (str ''Hi'') None)) = Some 14
   \<and> fontWeight_p (extractProps ascii_runtime (text_layer (str ''Hi'') None)) = Some 400
   \<and> \<not> has_text bare_layer
   \<and> fontSize_p (extractProps ascii_runtime bare_layer) = None
   \<and> fontWeight_p (extractProps ascii_runtime bare_layer) = None"
proof -
  have h: "has_text (text_layer (str ''Hi'') None)" "fontSize_i (text_layer (str ''Hi'') None) = None"
    "fontWeight_i (text_layer (str ''Hi'') None) = None" "\<not> has_text bare_layer"
    by (simp_all add: has_text_def text_layer_def bare_layer_def str_def)
  show ?thesis
    using h typography_defaults [of "text_layer (str ''Hi'') None" ascii_runtime]
      typography_defaults [of bare_layer ascii_runtime]
    by blast
qed

end
